theory Spec2Isabelle
  imports Complex_Main
begin

section \<open>JSON values and exceptions\<close>

text \<open>
  The SDK receives what \<open>json.loads\<close> produces: \<open>None\<close>, booleans, unbounded integers,
  floats, strings, lists and dicts. A float is kept as the rational number it denotes, or
  as one of the three non-finite values the decoder accepts (\<open>Infinity\<close>, \<open>-Infinity\<close>,
  \<open>NaN\<close>); binary rounding of float arithmetic is not part of the model. A dict is an
  association list; a lookup returns the first binding of the key.
\<close>

datatype pyfloat = Fin rat | PosInf | NegInf | NaN

datatype json =
    JNull
  | JBool bool
  | JInt int
  | JFloat pyfloat
  | JStr string
  | JArr "json list"
  | JObj "(string \<times> json) list"

text \<open>
  Exceptions: the Python built-ins the code can raise, and the classes of
  \<open>exceptions.py\<close> with the attributes their constructors store
  (\<open>message\<close>, \<open>status_code\<close>, \<open>retry_after\<close>, \<open>response\<close>).
\<close>

datatype exc =
    KeyError string
  | TypeError
  | ValueError
  | AttributeError
  | OverflowError
  | OSError
  | NotImplementedError string
  | JSONDecodeError string
  | DecimalInvalidOperation
  | DecimalOverflow
  | DecimalDivisionByZero
  | OwockibotError string "json option"
  | APIError string int "json option"
  | NotFoundError string "json option"
  | ValidationError string "json option"
  | RateLimitError string "int option" "json option"
  | ServerError string int "json option"
  | AuthenticationError string "json option"
  | PaymentError string "json option"

text \<open>\<open>isinstance(e, APIError)\<close> and \<open>isinstance(e, OwockibotError)\<close>, from the class
  hierarchy of \<open>exceptions.py\<close>.\<close>

fun is_APIError :: "exc \<Rightarrow> bool" where
  "is_APIError (APIError _ _ _) = True"
| "is_APIError (NotFoundError _ _) = True"
| "is_APIError (ValidationError _ _) = True"
| "is_APIError (RateLimitError _ _ _) = True"
| "is_APIError (ServerError _ _ _) = True"
| "is_APIError (AuthenticationError _ _) = True"
| "is_APIError _ = False"

fun is_OwockibotError :: "exc \<Rightarrow> bool" where
  "is_OwockibotError (OwockibotError _ _) = True"
| "is_OwockibotError (PaymentError _ _) = True"
| "is_OwockibotError e = is_APIError e"

text \<open>The \<open>status_code\<close> attribute: the constructors of the subclasses fix it.\<close>

fun status_code_of :: "exc \<Rightarrow> int option" where
  "status_code_of (APIError _ sc _) = Some sc"
| "status_code_of (NotFoundError _ _) = Some 404"
| "status_code_of (ValidationError _ _) = Some 400"
| "status_code_of (RateLimitError _ _ _) = Some 429"
| "status_code_of (ServerError _ sc _) = Some sc"
| "status_code_of (AuthenticationError _ _) = Some 401"
| "status_code_of _ = None"

fun retry_after_of :: "exc \<Rightarrow> int option" where
  "retry_after_of (RateLimitError _ ra _) = ra"
| "retry_after_of _ = None"

text \<open>Sequencing: the first exception ends the computation.\<close>

definition bind :: "exc + 'a \<Rightarrow> ('a \<Rightarrow> exc + 'b) \<Rightarrow> exc + 'b" where
  "bind m f = (case m of Inl e \<Rightarrow> Inl e | Inr x \<Rightarrow> f x)"

fun traverse :: "('a \<Rightarrow> exc + 'b) \<Rightarrow> 'a list \<Rightarrow> exc + 'b list" where
  "traverse f [] = Inr []"
| "traverse f (x # xs) = bind (f x) (\<lambda>y. bind (traverse f xs) (\<lambda>ys. Inr (y # ys)))"

section \<open>Strings\<close>

text \<open>\<open>str.lower\<close> on ASCII letters; characters are bytes.\<close>

definition lower_char :: "char \<Rightarrow> char" where
  "lower_char c =
     (let n = (of_char c :: nat) in if 65 \<le> n \<and> n \<le> 90 then char_of (n + 32) else c)"

definition lower :: "string \<Rightarrow> string" where
  "lower s = map lower_char s"

definition lstrip_chars :: "char set \<Rightarrow> string \<Rightarrow> string" where
  "lstrip_chars cs s = dropWhile (\<lambda>c. c \<in> cs) s"

definition rstrip_chars :: "char set \<Rightarrow> string \<Rightarrow> string" where
  "rstrip_chars cs s = rev (dropWhile (\<lambda>c. c \<in> cs) (rev s))"

definition py_whitespace :: "char set" where
  "py_whitespace = {CHR '' '', CHR 0x09, CHR 0x0A, CHR 0x0B, CHR 0x0C, CHR 0x0D}"

text \<open>\<open>'', ''.join(xs)\<close>.\<close>

fun join :: "string \<Rightarrow> string list \<Rightarrow> string" where
  "join sep [] = []"
| "join sep [x] = x"
| "join sep (x # y # ys) = x @ sep @ join sep (y # ys)"

text \<open>\<open>str(n)\<close> for an integer.\<close>

fun str_nat :: "nat \<Rightarrow> string" where
  "str_nat n =
     (if n < 10 then [char_of (48 + n)]
      else str_nat (n div 10) @ [char_of (48 + n mod 10)])"

definition str_int :: "int \<Rightarrow> string" where
  "str_int i = (if i < 0 then CHR ''-'' # str_nat (nat (- i)) else str_nat (nat i))"

text \<open>
  \<open>int(s)\<close> for a string: surrounding whitespace is dropped, one sign is allowed, then
  decimal digits, with single underscores between digits. Anything else raises
  \<open>ValueError\<close>.
\<close>

definition is_digit :: "char \<Rightarrow> bool" where
  "is_digit c = (let n = (of_char c :: nat) in 48 \<le> n \<and> n \<le> 57)"

fun digits_ok :: "string \<Rightarrow> bool" where
  "digits_ok [] = False"
| "digits_ok [c] = is_digit c"
| "digits_ok (c # d # cs) =
     (is_digit c \<and> (if d = CHR ''_'' then digits_ok cs else digits_ok (d # cs)))"

definition digits_value :: "string \<Rightarrow> int" where
  "digits_value s =
     foldl (\<lambda>acc c. if c = CHR ''_'' then acc else 10 * acc + (int (of_char c) - 48)) 0 s"

definition py_int_of_str :: "string \<Rightarrow> exc + int" where
  "py_int_of_str s =
     (let t = rstrip_chars py_whitespace (lstrip_chars py_whitespace s) in
      case t of
        [] \<Rightarrow> Inl ValueError
      | c # cs \<Rightarrow>
          if c = CHR ''-'' then (if digits_ok cs then Inr (- digits_value cs) else Inl ValueError)
          else if c = CHR ''+'' then (if digits_ok cs then Inr (digits_value cs) else Inl ValueError)
          else if digits_ok t then Inr (digits_value t) else Inl ValueError)"

section \<open>Decimal arithmetic\<close>

text \<open>
  Python's \<open>decimal.Decimal\<close> under the default context, which is the one the SDK runs in:
  precision 28 significant digits, rounding \<open>ROUND_HALF_EVEN\<close>, \<open>Emax = 999999\<close>,
  \<open>Emin = -999999\<close>, traps on \<open>InvalidOperation\<close>, \<open>DivisionByZero\<close> and \<open>Overflow\<close>.
  A finite decimal is a sign, a coefficient and an exponent and denotes
  \<open>(-1)^sign * coefficient * 10^exponent\<close>. Signalling NaNs are left out.
\<close>

datatype decimal = DFin bool nat int | DInf bool | DNaN

definition prec :: nat where "prec = 28"
definition Emax :: int where "Emax = 999999"
definition Emin :: int where "Emin = - 999999"
definition Etiny :: int where "Etiny = Emin - int prec + 1"
definition Etop :: int where "Etop = Emax - int prec + 1"

text \<open>The number a finite decimal denotes.\<close>

definition pow10 :: "int \<Rightarrow> rat" where
  "pow10 e = (if 0 \<le> e then 10 ^ nat e else 1 / 10 ^ nat (- e))"

fun dec_val :: "decimal \<Rightarrow> rat option" where
  "dec_val (DFin s c e) = Some ((if s then - 1 else 1) * of_nat c * pow10 e)"
| "dec_val _ = None"

text \<open>\<open>len(self._int)\<close>: the number of digits of the coefficient.\<close>

fun ndigits :: "nat \<Rightarrow> nat" where
  "ndigits n = (if n < 10 then 1 else Suc (ndigits (n div 10)))"

text \<open>\<open>Decimal(n)\<close> for an integer: always exact.\<close>

definition Decimal_of_int :: "int \<Rightarrow> decimal" where
  "Decimal_of_int n = DFin (n < 0) (nat \<bar>n\<bar>) 0"

text \<open>
  Dropping the last \<open>k\<close> digits of a coefficient, rounding half to even: the quotient
  goes up when the dropped part is more than half a unit, or exactly half and the
  quotient is odd.
\<close>

definition round_half_even_drop :: "nat \<Rightarrow> nat \<Rightarrow> nat" where
  "round_half_even_drop c k =
     (let q = c div 10 ^ k; r = c mod 10 ^ k
      in if 2 * r > 10 ^ k \<or> (2 * r = 10 ^ k \<and> odd q) then Suc q else q)"

text \<open>
  \<open>Decimal._fix\<close>: fit a finite result into the context. A zero only has its exponent
  clamped. Otherwise a coefficient of more than \<open>prec\<close> digits (or an exponent below
  \<open>Etiny\<close>) is rounded; a result whose adjusted exponent exceeds \<open>Emax\<close> raises
  \<open>Overflow\<close>.
\<close>

definition dec_fix :: "bool \<Rightarrow> nat \<Rightarrow> int \<Rightarrow> exc + decimal" where
  "dec_fix s c e =
     (if c = 0 then Inr (DFin s 0 (min (max e Etiny) Emax))
      else
        let exp_min0 = int (ndigits c) + e - int prec in
        if exp_min0 > Etop then Inl DecimalOverflow
        else
          let exp_min = (if exp_min0 < Etiny then Etiny else exp_min0) in
          if e < exp_min then
            let digits = int (ndigits c) + e - exp_min;
                c1 = (if digits < 0 then 1 else c);
                e1 = (if digits < 0 then exp_min - 1 else e);
                coeff = round_half_even_drop c1 (nat (exp_min - e1));
                over = (ndigits coeff > prec);
                coeff' = (if over then coeff div 10 else coeff);
                exp_min' = (if over then exp_min + 1 else exp_min)
            in if exp_min' > Etop then Inl DecimalOverflow else Inr (DFin s coeff' exp_min')
          else Inr (DFin s c e))"

text \<open>
  The loop of \<open>__truediv__\<close> that brings an exact quotient as close to the ideal exponent
  as its trailing zeros allow.
\<close>

function strip_zeros :: "nat \<Rightarrow> int \<Rightarrow> int \<Rightarrow> nat \<times> int" where
  "strip_zeros coeff e ideal =
     (if e < ideal \<and> coeff mod 10 = 0 then strip_zeros (coeff div 10) (e + 1) ideal
      else (coeff, e))"
  by pat_completeness auto
termination
  by (relation "measure (\<lambda>(coeff, e, ideal). nat (ideal - e))") auto

text \<open>\<open>Decimal.__truediv__\<close>.\<close>

fun truediv :: "decimal \<Rightarrow> decimal \<Rightarrow> exc + decimal" where
  "truediv DNaN _ = Inr DNaN"
| "truediv _ DNaN = Inr DNaN"
| "truediv (DInf s) (DInf t) = Inl DecimalInvalidOperation"
| "truediv (DInf s) (DFin t c e) = Inr (DInf (s \<noteq> t))"
| "truediv (DFin s c e) (DInf t) = Inr (DFin (s \<noteq> t) 0 Etiny)"
| "truediv (DFin s1 c1 e1) (DFin s2 c2 e2) =
     (if c2 = 0 then (if c1 = 0 then Inl DecimalInvalidOperation else Inl DecimalDivisionByZero)
      else if c1 = 0 then dec_fix (s1 \<noteq> s2) 0 (e1 - e2)
      else
        let shift = int (ndigits c2) - int (ndigits c1) + int prec + 1;
            e = e1 - e2 - shift;
            num = (if 0 \<le> shift then c1 * 10 ^ nat shift else c1);
            den = (if 0 \<le> shift then c2 else c2 * 10 ^ nat (- shift));
            coeff = num div den;
            remainder = num mod den
        in if remainder \<noteq> 0 then dec_fix (s1 \<noteq> s2) (if coeff mod 5 = 0 then coeff + 1 else coeff) e
           else (case strip_zeros coeff e (e1 - e2) of (coeff', e') \<Rightarrow> dec_fix (s1 \<noteq> s2) coeff' e'))"

text \<open>\<open>Decimal.__mul__\<close>.\<close>

fun mul :: "decimal \<Rightarrow> decimal \<Rightarrow> exc + decimal" where
  "mul DNaN _ = Inr DNaN"
| "mul _ DNaN = Inr DNaN"
| "mul (DInf s) (DInf t) = Inr (DInf (s \<noteq> t))"
| "mul (DInf s) (DFin t c e) = (if c = 0 then Inl DecimalInvalidOperation else Inr (DInf (s \<noteq> t)))"
| "mul (DFin s c e) (DInf t) = (if c = 0 then Inl DecimalInvalidOperation else Inr (DInf (s \<noteq> t)))"
| "mul (DFin s1 c1 e1) (DFin s2 c2 e2) = dec_fix (s1 \<noteq> s2) (c1 * c2) (e1 + e2)"

text \<open>\<open>Decimal.__int__\<close>: truncation towards zero.\<close>

fun int_of_decimal :: "decimal \<Rightarrow> exc + int" where
  "int_of_decimal DNaN = Inl ValueError"
| "int_of_decimal (DInf s) = Inl OverflowError"
| "int_of_decimal (DFin s c e) =
     (let m = (if 0 \<le> e then c * 10 ^ nat e else c div 10 ^ nat (- e))
      in Inr (if s then - int m else int m))"

text \<open>
  The ordering comparisons: a NaN operand signals \<open>InvalidOperation\<close>, which the default
  context traps; otherwise the operands compare by value, infinities at the ends.
\<close>

fun dec_le :: "decimal \<Rightarrow> decimal \<Rightarrow> exc + bool" where
  "dec_le DNaN _ = Inl DecimalInvalidOperation"
| "dec_le _ DNaN = Inl DecimalInvalidOperation"
| "dec_le (DInf s) (DInf t) = Inr (s \<or> \<not> t)"
| "dec_le (DInf s) (DFin t c e) = Inr s"
| "dec_le (DFin s c e) (DInf t) = Inr (\<not> t)"
| "dec_le (DFin s1 c1 e1) (DFin s2 c2 e2) =
     Inr ((if s1 then - 1 else 1) * of_nat c1 * pow10 e1 \<le> (if s2 then - 1 else 1) * of_nat c2 * pow10 e2)"

definition dec_ge :: "decimal \<Rightarrow> decimal \<Rightarrow> exc + bool" where
  "dec_ge a b = dec_le b a"

section \<open>Unit conversion utilities\<close>

text \<open>\<open>utils.py\<close>: \<open>usdc_to_micro\<close> and \<open>micro_to_usdc\<close>.\<close>

definition usdc_to_micro :: "decimal \<Rightarrow> exc + int" where
  "usdc_to_micro usdc = bind (mul usdc (Decimal_of_int 1000000)) int_of_decimal"

definition micro_to_usdc :: "int \<Rightarrow> exc + decimal" where
  "micro_to_usdc micro = truediv (Decimal_of_int micro) (Decimal_of_int 1000000)"

section \<open>Reading JSON values\<close>

text \<open>Truth value of a decoded value, as \<open>if v:\<close> tests it.\<close>

fun truthy :: "json \<Rightarrow> bool" where
  "truthy JNull = False"
| "truthy (JBool b) = b"
| "truthy (JInt n) = (n \<noteq> 0)"
| "truthy (JFloat f) = (f \<noteq> Fin 0)"
| "truthy (JStr s) = (s \<noteq> [])"
| "truthy (JArr xs) = (xs \<noteq> [])"
| "truthy (JObj kvs) = (kvs \<noteq> [])"

text \<open>\<open>data[k]\<close> raises \<open>KeyError\<close> on a dict without the key and \<open>TypeError\<close> on a value
  that is no dict; \<open>data.get(k, default)\<close> raises \<open>AttributeError\<close> on a value that is no dict.\<close>

fun getitem :: "json \<Rightarrow> string \<Rightarrow> exc + json" where
  "getitem (JObj kvs) k = (case map_of kvs k of None \<Rightarrow> Inl (KeyError k) | Some v \<Rightarrow> Inr v)"
| "getitem _ k = Inl TypeError"

fun get :: "json \<Rightarrow> string \<Rightarrow> json \<Rightarrow> exc + json" where
  "get (JObj kvs) k d = Inr (case map_of kvs k of None \<Rightarrow> d | Some v \<Rightarrow> v)"
| "get _ k d = Inl AttributeError"

text \<open>\<open>for x in v\<close>: a list gives its elements, a string its characters, a dict its keys;
  nothing else can be iterated.\<close>

fun py_iter :: "json \<Rightarrow> exc + json list" where
  "py_iter (JArr xs) = Inr xs"
| "py_iter (JStr s) = Inr (map (\<lambda>c. JStr [c]) s)"
| "py_iter (JObj kvs) = Inr (map JStr (remdups (map fst kvs)))"
| "py_iter _ = Inl TypeError"

text \<open>\<open>isinstance(v, (int, float))\<close>, with the number: \<open>bool\<close> is a subclass of \<open>int\<close>.\<close>

fun num_of :: "json \<Rightarrow> pyfloat option" where
  "num_of (JBool b) = Some (Fin (if b then 1 else 0))"
| "num_of (JInt n) = Some (Fin (of_int n))"
| "num_of (JFloat f) = Some f"
| "num_of _ = None"

fun div1000 :: "pyfloat \<Rightarrow> pyfloat" where
  "div1000 (Fin x) = Fin (x / 1000)"
| "div1000 f = f"

fun gt_1e12 :: "pyfloat \<Rightarrow> bool" where
  "gt_1e12 (Fin x) = (x > 10 ^ 12)"
| "gt_1e12 PosInf = True"
| "gt_1e12 _ = False"

section \<open>Timestamps\<close>

text \<open>
  A \<open>datetime\<close> is its wall-clock reading in microseconds since 1970-01-01T00:00:00,
  together with its UTC offset in seconds when it is an aware one. \<open>datetime.min\<close> is
  0001-01-01T00:00:00 and \<open>datetime.max\<close> is 9999-12-31T23:59:59.999999, both naive.
\<close>

datatype datetime = Datetime int "int option"

definition datetime_min :: datetime where
  "datetime_min = Datetime (- 62135596800000000) None"

definition datetime_max :: datetime where
  "datetime_max = Datetime 253402300799999999 None"

definition round_half_even :: "rat \<Rightarrow> int" where
  "round_half_even x =
     (let f = \<lfloor>x\<rfloor>; d = x - of_int f
      in if d < 1 / 2 then f else if d > 1 / 2 then f + 1 else if even f then f else f + 1)"

text \<open>
  \<open>datetime.fromtimestamp\<close> on a 64-bit POSIX platform whose local zone is UTC. The
  value is rounded to microseconds (half to even) and is an instant before the epoch when
  it is negative. NaN raises \<open>ValueError\<close>; an infinity or a value outside the range of
  \<open>time_t\<close> raises \<open>OverflowError\<close>; a value the C library's \<open>localtime\<close> cannot
  break down raises \<open>OSError\<close>; a year outside 1..9999 raises \<open>ValueError\<close>. The
  earliest value accepted is 0001-01-02T00:00:00, since the conversion also looks one day
  back to detect a repeated hour.
\<close>

fun fromtimestamp :: "pyfloat \<Rightarrow> exc + datetime" where
  "fromtimestamp NaN = Inl ValueError"
| "fromtimestamp PosInf = Inl OverflowError"
| "fromtimestamp NegInf = Inl OverflowError"
| "fromtimestamp (Fin x) =
     (if x < - (2 ^ 63) \<or> 2 ^ 63 \<le> x then Inl OverflowError
      else let us = round_half_even (x * 1000000)
           in if us < - 67768040609740800000000 \<or> 67767976233532800000000 \<le> us
              then Inl OSError
              else if us < - 62135510400000000 \<or> 253402300799999999 < us then Inl ValueError
              else Inr (Datetime us None))"

text \<open>\<open>s.replace("Z", "+00:00")\<close>: every \<open>Z\<close> of the string is replaced.\<close>

definition replace_Z :: "string \<Rightarrow> string" where
  "replace_Z s = concat (map (\<lambda>c. if c = CHR ''Z'' then ''+00:00'' else [c]) s)"

text \<open>
  \<open>_parse_timestamp\<close>. The parser \<open>datetime.fromisoformat\<close> is a parameter \<open>iso8601\<close>: it
  returns a datetime or raises \<open>ValueError\<close> (\<open>None\<close>). A value that is neither a
  number nor a string has no \<open>replace\<close> method.
\<close>

definition fromisoformat :: "(string \<Rightarrow> datetime option) \<Rightarrow> string \<Rightarrow> exc + datetime" where
  "fromisoformat iso8601 s = (case iso8601 s of None \<Rightarrow> Inl ValueError | Some d \<Rightarrow> Inr d)"

definition parse_timestamp :: "(string \<Rightarrow> datetime option) \<Rightarrow> json \<Rightarrow> exc + datetime" where
  "parse_timestamp iso8601 ts =
     (case num_of ts of
        Some x \<Rightarrow> fromtimestamp (if gt_1e12 x then div1000 x else x)
      | None \<Rightarrow>
          (case ts of
             JStr s \<Rightarrow> fromisoformat iso8601 (replace_Z s)
           | _ \<Rightarrow> Inl AttributeError))"

section \<open>Domain models: what \<open>from_dict\<close> builds\<close>

text \<open>
  \<open>models.py\<close>. The dataclasses are not checked at run time: \<open>from_dict\<close> stores most
  fields as they were decoded, whatever their type. The records of this section are the
  objects as \<open>from_dict\<close> builds them: a field that is stored unconverted holds a JSON value
  (\<open>JNull\<close> is \<open>None\<close>), a converted field holds the converted value. The fields are
  evaluated in the order of the constructor call, and the first exception ends the call.
\<close>

datatype BountyStatus = OPEN | CLAIMED | SUBMITTED | COMPLETED | CANCELLED | PAYMENT_FAILED

fun status_value :: "BountyStatus \<Rightarrow> string" where
  "status_value OPEN = ''open''"
| "status_value CLAIMED = ''claimed''"
| "status_value SUBMITTED = ''submitted''"
| "status_value COMPLETED = ''completed''"
| "status_value CANCELLED = ''cancelled''"
| "status_value PAYMENT_FAILED = ''payment_failed''"

text \<open>\<open>BountyStatus(v)\<close>: the member with that value, or \<open>ValueError\<close>.\<close>

definition BountyStatus_of :: "json \<Rightarrow> exc + BountyStatus" where
  "BountyStatus_of v =
     (case v of
        JStr s \<Rightarrow>
          (case filter (\<lambda>m. status_value m = s) [OPEN, CLAIMED, SUBMITTED, COMPLETED, CANCELLED, PAYMENT_FAILED] of
             [] \<Rightarrow> Inl ValueError
           | m # _ \<Rightarrow> Inr m)
      | _ \<Rightarrow> Inl ValueError)"

text \<open>\<open>f(data[k]) if data.get(k) else None\<close>.\<close>

definition optional_field :: "json \<Rightarrow> string \<Rightarrow> (json \<Rightarrow> exc + 'a) \<Rightarrow> exc + 'a option" where
  "optional_field data k f =
     bind (get data k JNull) (\<lambda>v.
       if truthy v then bind (getitem data k) (\<lambda>w. bind (f w) (\<lambda>x. Inr (Some x)))
       else Inr None)"

record submission_obj =
  sub_id :: json
  sub_content :: json
  sub_submitted_at :: datetime
  sub_proof :: json

definition Submission_from_dict :: "(string \<Rightarrow> datetime option) \<Rightarrow> json \<Rightarrow> exc + submission_obj" where
  "Submission_from_dict iso8601 data =
     bind (getitem data ''id'') (\<lambda>v_id.
     bind (getitem data ''content'') (\<lambda>v_content.
     bind (bind (getitem data ''submittedAt'') (parse_timestamp iso8601)) (\<lambda>v_submitted_at.
     bind (get data ''proof'' JNull) (\<lambda>v_proof.
     Inr \<lparr> sub_id = v_id, sub_content = v_content,
           sub_submitted_at = v_submitted_at, sub_proof = v_proof \<rparr>))))"

record rejection_obj =
  rej_reason :: json
  rej_rejected_at :: datetime
  rej_previous_claimant :: json
  rej_previous_submissions :: "submission_obj list"

definition Rejection_from_dict :: "(string \<Rightarrow> datetime option) \<Rightarrow> json \<Rightarrow> exc + rejection_obj" where
  "Rejection_from_dict iso8601 data =
     bind (bind (bind (get data ''previousSubmissions'' (JArr [])) py_iter)
             (traverse (Submission_from_dict iso8601))) (\<lambda>submissions.
     bind (getitem data ''reason'') (\<lambda>v_reason.
     bind (bind (getitem data ''rejectedAt'') (parse_timestamp iso8601)) (\<lambda>v_rejected_at.
     bind (get data ''previousClaimant'' JNull) (\<lambda>v_previous_claimant.
     Inr \<lparr> rej_reason = v_reason, rej_rejected_at = v_rejected_at,
           rej_previous_claimant = v_previous_claimant,
           rej_previous_submissions = submissions \<rparr>))))"

record pending_payment_obj =
  pp_fee :: json
  pp_chain :: json
  pp_token :: json
  pp_net_reward :: json
  pp_gross_reward :: json
  pp_recipient :: json

definition PendingPayment_from_dict :: "json \<Rightarrow> exc + pending_payment_obj" where
  "PendingPayment_from_dict data =
     bind (getitem data ''fee'') (\<lambda>v_fee.
     bind (getitem data ''chain'') (\<lambda>v_chain.
     bind (getitem data ''token'') (\<lambda>v_token.
     bind (getitem data ''netReward'') (\<lambda>v_net_reward.
     bind (getitem data ''grossReward'') (\<lambda>v_gross_reward.
     bind (getitem data ''recipient'') (\<lambda>v_recipient.
     Inr \<lparr> pp_fee = v_fee, pp_chain = v_chain, pp_token = v_token,
           pp_net_reward = v_net_reward, pp_gross_reward = v_gross_reward,
           pp_recipient = v_recipient \<rparr>))))))"

record payment_obj =
  pay_fee :: json
  pay_chain :: json
  pay_token :: json
  pay_net_reward :: json
  pay_gross_reward :: json
  pay_tx_hash :: json
  pay_processed_at :: datetime
  pay_processed_by :: json
  pay_fee_percent :: json
  pay_fee_formatted :: json
  pay_net_reward_formatted :: json

text \<open>\<open>datetime.fromisoformat(v.replace("Z", "+00:00"))\<close>: only a string has \<open>replace\<close>.\<close>

definition iso_field :: "(string \<Rightarrow> datetime option) \<Rightarrow> json \<Rightarrow> exc + datetime" where
  "iso_field iso8601 v =
     (case v of JStr s \<Rightarrow> fromisoformat iso8601 (replace_Z s) | _ \<Rightarrow> Inl AttributeError)"

definition Payment_from_dict :: "(string \<Rightarrow> datetime option) \<Rightarrow> json \<Rightarrow> exc + payment_obj" where
  "Payment_from_dict iso8601 data =
     bind (getitem data ''fee'') (\<lambda>v_fee.
     bind (getitem data ''chain'') (\<lambda>v_chain.
     bind (getitem data ''token'') (\<lambda>v_token.
     bind (getitem data ''netReward'') (\<lambda>v_net_reward.
     bind (getitem data ''grossReward'') (\<lambda>v_gross_reward.
     bind (getitem data ''txHash'') (\<lambda>v_tx_hash.
     bind (bind (getitem data ''processedAt'') (iso_field iso8601)) (\<lambda>v_processed_at.
     bind (getitem data ''processedBy'') (\<lambda>v_processed_by.
     bind (getitem data ''feePercent'') (\<lambda>v_fee_percent.
     bind (getitem data ''feeFormatted'') (\<lambda>v_fee_formatted.
     bind (getitem data ''netRewardFormatted'') (\<lambda>v_net_reward_formatted.
     Inr \<lparr> pay_fee = v_fee, pay_chain = v_chain, pay_token = v_token,
           pay_net_reward = v_net_reward, pay_gross_reward = v_gross_reward,
           pay_tx_hash = v_tx_hash, pay_processed_at = v_processed_at,
           pay_processed_by = v_processed_by, pay_fee_percent = v_fee_percent,
           pay_fee_formatted = v_fee_formatted,
           pay_net_reward_formatted = v_net_reward_formatted \<rparr>)))))))))))"

text \<open>The deadline of a bounty object: a converted instant, or the decoded value as it came.\<close>

datatype deadline_value = Instant datetime | Verbatim json

record bounty_obj =
  bo_id :: json
  bo_uuid :: json
  bo_title :: json
  bo_description :: json
  bo_reward :: json
  bo_reward_formatted :: json
  bo_status :: BountyStatus
  bo_creator :: json
  bo_deadline :: "deadline_value option"
  bo_tags :: json
  bo_requirements :: json
  bo_submissions :: "submission_obj list"
  bo_created_at :: datetime
  bo_updated_at :: datetime
  bo_claimed_by :: json
  bo_claimed_at :: "datetime option"
  bo_approved_at :: "datetime option"
  bo_completed_at :: "datetime option"
  bo_payment_error :: json
  bo_pending_payment :: "pending_payment_obj option"
  bo_payment :: "payment_obj option"
  bo_rejections :: "rejection_obj list"

text \<open>The deadline branch at the head of \<open>Bounty.from_dict\<close>.\<close>

definition parse_deadline :: "json \<Rightarrow> exc + deadline_value option" where
  "parse_deadline data =
     bind (get data ''deadline'' JNull) (\<lambda>deadline_raw.
       if truthy deadline_raw then
         (case num_of deadline_raw of
            Some x \<Rightarrow> bind (fromtimestamp (div1000 x)) (\<lambda>d. Inr (Some (Instant d)))
          | None \<Rightarrow> Inr (Some (Verbatim deadline_raw)))
       else Inr None)"

definition Bounty_from_dict :: "(string \<Rightarrow> datetime option) \<Rightarrow> json \<Rightarrow> exc + bounty_obj" where
  "Bounty_from_dict iso8601 data =
     bind (parse_deadline data) (\<lambda>deadline.
     bind (getitem data ''id'') (\<lambda>v_id.
     bind (getitem data ''uuid'') (\<lambda>v_uuid.
     bind (getitem data ''title'') (\<lambda>v_title.
     bind (getitem data ''description'') (\<lambda>v_description.
     bind (getitem data ''reward'') (\<lambda>v_reward.
     bind (getitem data ''rewardFormatted'') (\<lambda>v_reward_formatted.
     bind (bind (getitem data ''status'') BountyStatus_of) (\<lambda>v_status.
     bind (getitem data ''creator'') (\<lambda>v_creator.
     bind (get data ''tags'' (JArr [])) (\<lambda>v_tags.
     bind (get data ''requirements'' (JArr [])) (\<lambda>v_requirements.
     bind (bind (bind (get data ''submissions'' (JArr [])) py_iter)
             (traverse (Submission_from_dict iso8601))) (\<lambda>v_submissions.
     bind (bind (getitem data ''createdAt'') (parse_timestamp iso8601)) (\<lambda>v_created_at.
     bind (bind (getitem data ''updatedAt'') (parse_timestamp iso8601)) (\<lambda>v_updated_at.
     bind (get data ''claimedBy'' JNull) (\<lambda>v_claimed_by.
     bind (optional_field data ''claimedAt'' (parse_timestamp iso8601)) (\<lambda>v_claimed_at.
     bind (optional_field data ''approvedAt'' (parse_timestamp iso8601)) (\<lambda>v_approved_at.
     bind (optional_field data ''completedAt'' (parse_timestamp iso8601)) (\<lambda>v_completed_at.
     bind (get data ''paymentError'' JNull) (\<lambda>v_payment_error.
     bind (optional_field data ''pendingPayment'' PendingPayment_from_dict) (\<lambda>v_pending_payment.
     bind (optional_field data ''payment'' (Payment_from_dict iso8601)) (\<lambda>v_payment.
     bind (bind (bind (get data ''rejections'' (JArr [])) py_iter)
             (traverse (Rejection_from_dict iso8601))) (\<lambda>v_rejections.
     Inr \<lparr> bo_id = v_id, bo_uuid = v_uuid, bo_title = v_title,
           bo_description = v_description, bo_reward = v_reward,
           bo_reward_formatted = v_reward_formatted, bo_status = v_status,
           bo_creator = v_creator, bo_deadline = deadline, bo_tags = v_tags,
           bo_requirements = v_requirements, bo_submissions = v_submissions,
           bo_created_at = v_created_at, bo_updated_at = v_updated_at,
           bo_claimed_by = v_claimed_by, bo_claimed_at = v_claimed_at,
           bo_approved_at = v_approved_at, bo_completed_at = v_completed_at,
           bo_payment_error = v_payment_error, bo_pending_payment = v_pending_payment,
           bo_payment = v_payment, bo_rejections = v_rejections \<rparr>))))))))))))))))))))))"

record stats_obj =
  st_total_bounties :: json
  st_open_bounties :: json
  st_completed_bounties :: json
  st_total_rewards_usdc :: json
  st_total_agents :: json
  st_db_connected :: json

definition Stats_from_dict :: "json \<Rightarrow> exc + stats_obj" where
  "Stats_from_dict data =
     bind (getitem data ''totalBounties'') (\<lambda>v_total_bounties.
     bind (getitem data ''openBounties'') (\<lambda>v_open_bounties.
     bind (getitem data ''completedBounties'') (\<lambda>v_completed_bounties.
     bind (getitem data ''totalRewardsUSDC'') (\<lambda>v_total_rewards_usdc.
     bind (getitem data ''totalAgents'') (\<lambda>v_total_agents.
     bind (getitem data ''dbConnected'') (\<lambda>v_db_connected.
     Inr \<lparr> st_total_bounties = v_total_bounties, st_open_bounties = v_open_bounties,
           st_completed_bounties = v_completed_bounties,
           st_total_rewards_usdc = v_total_rewards_usdc,
           st_total_agents = v_total_agents, st_db_connected = v_db_connected \<rparr>))))))"

record token_config_obj =
  tc_network :: json
  tc_token :: json
  tc_address :: json
  tc_min_amount :: json

definition TokenConfig_from_dict :: "json \<Rightarrow> exc + token_config_obj" where
  "TokenConfig_from_dict data =
     bind (getitem data ''network'') (\<lambda>v_network.
     bind (getitem data ''token'') (\<lambda>v_token.
     bind (getitem data ''address'') (\<lambda>v_address.
     bind (getitem data ''minAmount'') (\<lambda>v_min_amount.
     Inr \<lparr> tc_network = v_network, tc_token = v_token, tc_address = v_address,
           tc_min_amount = v_min_amount \<rparr>))))"

record x402_config_obj =
  x4_version :: json
  x4_network :: json
  x4_chain_id :: json
  x4_accepts :: "token_config_obj list"
  x4_facilitator :: json
  x4_treasury :: json

definition X402Config_from_dict :: "json \<Rightarrow> exc + x402_config_obj" where
  "X402Config_from_dict data =
     bind (getitem data ''version'') (\<lambda>v_version.
     bind (getitem data ''network'') (\<lambda>v_network.
     bind (getitem data ''chainId'') (\<lambda>v_chain_id.
     bind (bind (bind (getitem data ''accepts'') py_iter) (traverse TokenConfig_from_dict)) (\<lambda>v_accepts.
     bind (getitem data ''facilitator'') (\<lambda>v_facilitator.
     bind (getitem data ''treasury'') (\<lambda>v_treasury.
     Inr \<lparr> x4_version = v_version, x4_network = v_network, x4_chain_id = v_chain_id,
           x4_accepts = v_accepts, x4_facilitator = v_facilitator,
           x4_treasury = v_treasury \<rparr>))))))"

text \<open>The keys each \<open>from_dict\<close> reads by subscript, in the order it reads them.\<close>

definition Submission_required :: "string list" where
  "Submission_required = [''id'', ''content'', ''submittedAt'']"

definition Rejection_required :: "string list" where
  "Rejection_required = [''reason'', ''rejectedAt'']"

definition PendingPayment_required :: "string list" where
  "PendingPayment_required =
     [''fee'', ''chain'', ''token'', ''netReward'', ''grossReward'', ''recipient'']"

definition Payment_required :: "string list" where
  "Payment_required =
     [''fee'', ''chain'', ''token'', ''netReward'', ''grossReward'', ''txHash'', ''processedAt'',
      ''processedBy'', ''feePercent'', ''feeFormatted'', ''netRewardFormatted'']"

definition Bounty_required :: "string list" where
  "Bounty_required =
     [''id'', ''uuid'', ''title'', ''description'', ''reward'', ''rewardFormatted'', ''status'',
      ''creator'', ''createdAt'', ''updatedAt'']"

definition Stats_required :: "string list" where
  "Stats_required =
     [''totalBounties'', ''openBounties'', ''completedBounties'', ''totalRewardsUSDC'',
      ''totalAgents'', ''dbConnected'']"

definition TokenConfig_required :: "string list" where
  "TokenConfig_required = [''network'', ''token'', ''address'', ''minAmount'']"

definition X402Config_required :: "string list" where
  "X402Config_required =
     [''version'', ''network'', ''chainId'', ''accepts'', ''facilitator'', ''treasury'']"

section \<open>Domain models: the dataclasses as annotated\<close>

text \<open>
  The accessors, the filter builder and the sort helpers work on \<open>Bounty\<close> objects whose
  fields have the types the dataclasses declare. These records are the dataclasses with
  their annotations: \<open>int\<close> is \<open>int\<close>, \<open>str\<close> is \<open>string\<close>, \<open>Optional\<close> is \<open>option\<close>, and a
  deadline is a string or a datetime.
\<close>

record submission =
  submission_id :: string
  content :: string
  submitted_at :: datetime
  submission_proof :: "string option"

record rejection =
  reason :: string
  rejected_at :: datetime
  previous_claimant :: "string option"
  previous_submissions :: "submission list"

record pending_payment =
  pending_fee :: int
  pending_chain :: string
  pending_token :: string
  pending_net_reward :: int
  pending_gross_reward :: int
  recipient :: string

record payment =
  fee :: int
  chain :: string
  token :: string
  net_reward :: int
  gross_reward :: int
  tx_hash :: string
  processed_at :: datetime
  processed_by :: string
  fee_percent :: string
  fee_formatted :: string
  net_reward_formatted :: string

datatype deadline = DeadlineStr string | DeadlineAt datetime

record bounty =
  bounty_id :: string
  uuid :: string
  title :: string
  description :: string
  reward :: int
  reward_formatted :: string
  status :: BountyStatus
  creator :: string
  deadline :: "deadline option"
  tags :: "string list"
  requirements :: "string list"
  submissions :: "submission list"
  created_at :: datetime
  updated_at :: datetime
  claimed_by :: "string option"
  claimed_at :: "datetime option"
  approved_at :: "datetime option"
  completed_at :: "datetime option"
  payment_error :: "string option"
  pending_payment :: "pending_payment option"
  payment :: "payment option"
  rejections :: "rejection list"

text \<open>The \<open>*_usdc\<close> properties: \<open>Decimal(self.x) / Decimal(1_000_000)\<close>.\<close>

definition pending_fee_usdc :: "pending_payment \<Rightarrow> exc + decimal" where
  "pending_fee_usdc p = truediv (Decimal_of_int (pending_fee p)) (Decimal_of_int 1000000)"

definition pending_net_reward_usdc :: "pending_payment \<Rightarrow> exc + decimal" where
  "pending_net_reward_usdc p =
     truediv (Decimal_of_int (pending_net_reward p)) (Decimal_of_int 1000000)"

definition pending_gross_reward_usdc :: "pending_payment \<Rightarrow> exc + decimal" where
  "pending_gross_reward_usdc p =
     truediv (Decimal_of_int (pending_gross_reward p)) (Decimal_of_int 1000000)"

definition fee_usdc :: "payment \<Rightarrow> exc + decimal" where
  "fee_usdc p = truediv (Decimal_of_int (fee p)) (Decimal_of_int 1000000)"

definition net_reward_usdc :: "payment \<Rightarrow> exc + decimal" where
  "net_reward_usdc p = truediv (Decimal_of_int (net_reward p)) (Decimal_of_int 1000000)"

definition gross_reward_usdc :: "payment \<Rightarrow> exc + decimal" where
  "gross_reward_usdc p = truediv (Decimal_of_int (gross_reward p)) (Decimal_of_int 1000000)"

definition reward_usdc :: "bounty \<Rightarrow> exc + decimal" where
  "reward_usdc b = truediv (Decimal_of_int (reward b)) (Decimal_of_int 1000000)"

definition is_open :: "bounty \<Rightarrow> bool" where
  "is_open b = (status b = OPEN)"

definition is_claimed :: "bounty \<Rightarrow> bool" where
  "is_claimed b = (status b = CLAIMED)"

definition is_completed :: "bounty \<Rightarrow> bool" where
  "is_completed b = (status b = COMPLETED)"

definition is_payment_failed :: "bounty \<Rightarrow> bool" where
  "is_payment_failed b = (status b = PAYMENT_FAILED)"

section \<open>Filter and query builder\<close>

text \<open>
  \<open>filters.py\<close>. The builder's methods mutate the filter and return it; here each
  returns the updated filter. The custom predicate is a function of the bounty that
  returns a truth value or raises.
\<close>

record bounty_filter =
  statuses :: "BountyStatus list"
  filter_tags :: "string list"
  min_reward :: "decimal option"
  max_reward :: "decimal option"
  filter_creator :: "string option"
  filter_claimed_by :: "string option"
  search_query :: "string option"
  custom_filter :: "(bounty \<Rightarrow> exc + bool) option"

definition BountyFilter :: bounty_filter where
  "BountyFilter =
     \<lparr> statuses = [], filter_tags = [], min_reward = None, max_reward = None,
       filter_creator = None, filter_claimed_by = None, search_query = None,
       custom_filter = None \<rparr>"

definition with_status :: "BountyStatus list \<Rightarrow> bounty_filter \<Rightarrow> bounty_filter" where
  "with_status ss f = f\<lparr>statuses := statuses f @ ss\<rparr>"

definition with_tags :: "string list \<Rightarrow> bounty_filter \<Rightarrow> bounty_filter" where
  "with_tags ts f = f\<lparr>filter_tags := filter_tags f @ ts\<rparr>"

definition with_any_tags :: "string list \<Rightarrow> bounty_filter \<Rightarrow> bounty_filter" where
  "with_any_tags ts f =
     f\<lparr>custom_filter :=
         Some (\<lambda>b. Inr (set (map lower ts) \<inter> set (map lower (tags b)) \<noteq> {}))\<rparr>"

definition with_min_reward :: "decimal \<Rightarrow> bounty_filter \<Rightarrow> bounty_filter" where
  "with_min_reward amount f = f\<lparr>min_reward := Some amount\<rparr>"

definition with_max_reward :: "decimal \<Rightarrow> bounty_filter \<Rightarrow> bounty_filter" where
  "with_max_reward amount f = f\<lparr>max_reward := Some amount\<rparr>"

definition with_reward_range :: "decimal \<Rightarrow> decimal \<Rightarrow> bounty_filter \<Rightarrow> bounty_filter" where
  "with_reward_range min_amount max_amount f =
     f\<lparr>min_reward := Some min_amount, max_reward := Some max_amount\<rparr>"

definition with_creator :: "string \<Rightarrow> bounty_filter \<Rightarrow> bounty_filter" where
  "with_creator c f = f\<lparr>filter_creator := Some (lower c)\<rparr>"

definition with_claimed_by :: "string \<Rightarrow> bounty_filter \<Rightarrow> bounty_filter" where
  "with_claimed_by c f = f\<lparr>filter_claimed_by := Some (lower c)\<rparr>"

definition search :: "string \<Rightarrow> bounty_filter \<Rightarrow> bounty_filter" where
  "search q f = f\<lparr>search_query := Some (lower q)\<rparr>"

text \<open>\<open>q in s\<close> for strings.\<close>

fun contains :: "string \<Rightarrow> string \<Rightarrow> bool" where
  "contains q [] = (q = [])"
| "contains q (c # cs) = (take (length q) (c # cs) = q \<or> contains q cs)"

text \<open>A list comprehension with a condition that may raise.\<close>

fun filter_e :: "('a \<Rightarrow> exc + bool) \<Rightarrow> 'a list \<Rightarrow> exc + 'a list" where
  "filter_e p [] = Inr []"
| "filter_e p (x # xs) =
     bind (p x) (\<lambda>keep. bind (filter_e p xs) (\<lambda>ys. Inr (if keep then x # ys else ys)))"

text \<open>One stage of \<open>apply\<close>: skipped when its criterion is unset.\<close>

definition stage :: "bool \<Rightarrow> ('a \<Rightarrow> exc + bool) \<Rightarrow> 'a list \<Rightarrow> exc + 'a list" where
  "stage is_set p xs = (if is_set then filter_e p xs else Inr xs)"

definition truthy_str :: "string option \<Rightarrow> bool" where
  "truthy_str s = (case s of None \<Rightarrow> False | Some t \<Rightarrow> t \<noteq> [])"

definition apply_filter :: "bounty_filter \<Rightarrow> bounty list \<Rightarrow> exc + bounty list" where
  "apply_filter f bounties =
     bind (stage (statuses f \<noteq> [])
             (\<lambda>b. Inr (status b \<in> set (statuses f))) bounties) (\<lambda>result.
     bind (stage (filter_tags f \<noteq> [])
             (\<lambda>b. Inr (list_all (\<lambda>t. lower t \<in> set (map lower (tags b))) (filter_tags f)))
             result) (\<lambda>result.
     bind (stage (min_reward f \<noteq> None)
             (\<lambda>b. bind (reward_usdc b) (\<lambda>r. dec_ge r (the (min_reward f)))) result) (\<lambda>result.
     bind (stage (max_reward f \<noteq> None)
             (\<lambda>b. bind (reward_usdc b) (\<lambda>r. dec_le r (the (max_reward f)))) result) (\<lambda>result.
     bind (stage (truthy_str (filter_creator f))
             (\<lambda>b. Inr (lower (creator b) = the (filter_creator f))) result) (\<lambda>result.
     bind (stage (truthy_str (filter_claimed_by f))
             (\<lambda>b. Inr (truthy_str (claimed_by b)
                        \<and> lower (the (claimed_by b)) = the (filter_claimed_by f))) result) (\<lambda>result.
     bind (stage (truthy_str (search_query f))
             (\<lambda>b. Inr (contains (the (search_query f)) (lower (title b))
                        \<or> contains (the (search_query f)) (lower (description b)))) result) (\<lambda>result.
     stage (custom_filter f \<noteq> None) (the (custom_filter f)) result)))))))"

text \<open>
  \<open>sorted(xs, key=k, reverse=r)\<close> with datetime keys. Comparing a naive datetime with an
  aware one raises \<open>TypeError\<close>; a sort of two or more elements whose keys are of both
  kinds cannot avoid such a comparison. The sort is stable; a reversed sort reverses the
  list, sorts it and reverses the result, so that equal keys keep their order.
\<close>

fun is_aware :: "datetime \<Rightarrow> bool" where
  "is_aware (Datetime us off) = (off \<noteq> None)"

fun instant_of :: "datetime \<Rightarrow> int" where
  "instant_of (Datetime us None) = us"
| "instant_of (Datetime us (Some off)) = us - 1000000 * off"

definition sorted_by_datetime :: "('a \<Rightarrow> datetime) \<Rightarrow> bool \<Rightarrow> 'a list \<Rightarrow> exc + 'a list" where
  "sorted_by_datetime k reverse xs =
     (if 2 \<le> length xs \<and> (\<exists>x \<in> set xs. is_aware (k x)) \<and> (\<exists>x \<in> set xs. \<not> is_aware (k x))
      then Inl TypeError
      else if reverse then Inr (rev (sort_key (\<lambda>x. instant_of (k x)) (rev xs)))
      else Inr (sort_key (\<lambda>x. instant_of (k x)) xs))"

definition deadline_key :: "bool \<Rightarrow> bounty \<Rightarrow> datetime" where
  "deadline_key descending b =
     (case deadline b of
        None \<Rightarrow> (if descending then datetime_max else datetime_min)
      | Some (DeadlineStr s) \<Rightarrow> datetime_min
      | Some (DeadlineAt d) \<Rightarrow> d)"

definition sort_by_deadline :: "bounty list \<Rightarrow> bool \<Rightarrow> exc + bounty list" where
  "sort_by_deadline bounties descending =
     sorted_by_datetime (deadline_key descending) descending bounties"

section \<open>The request client\<close>

text \<open>
  \<open>client.py\<close>. The HTTP library is outside the model: a transport maps the requests
  issued so far and the next request to what \<open>httpx\<close> does with it, which is a timeout, another
  request error (with its message), or a response. A response carries its status code,
  its headers, its body text and what \<open>response.json()\<close> gives on it: the decoded value,
  or the message of the \<open>JSONDecodeError\<close> it raises. The state threaded through the
  client's operations is the list of requests issued.
\<close>

record response =
  status_code :: int
  headers :: "(string \<times> string) list"
  rtext :: string
  rjson :: "string + json"

datatype outcome = TimeoutException | RequestError string | Response response

record request =
  req_method :: string
  req_url :: string
  req_json :: "json option"

type_synonym transport = "request list \<Rightarrow> request \<Rightarrow> outcome"

text \<open>The client as \<open>__init__\<close> leaves it; \<open>timeout\<close> is kept as the text Python renders
  it with in messages.\<close>

record client =
  base_url :: string
  timeout :: string
  client_headers :: "(string \<times> string) list"

definition DEFAULT_BASE_URL :: string where
  "DEFAULT_BASE_URL = ''https://bounty.owockibot.xyz''"

definition client_init :: "string \<Rightarrow> string \<Rightarrow> (string \<times> string) list option \<Rightarrow> client" where
  "client_init url t hs =
     \<lparr> base_url = rstrip_chars {CHR ''/''} url,
       timeout = t,
       client_headers = (case hs of None \<Rightarrow> [] | Some h \<Rightarrow> h) \<rparr>"

text \<open>\<open>response.headers.get(key)\<close>: keys compare without case, several values of one
  header are joined.\<close>

definition headers_get :: "(string \<times> string) list \<Rightarrow> string \<Rightarrow> string option" where
  "headers_get hs key =
     (let items = map snd (filter (\<lambda>(k, v). lower k = lower key) hs)
      in if items = [] then None else Some (join '', '' items))"

definition is_success :: "response \<Rightarrow> bool" where
  "is_success r = (200 \<le> status_code r \<and> status_code r \<le> 299)"

text \<open>\<open>response.json() if response.text else None\<close>.\<close>

definition json_if_text :: "response \<Rightarrow> exc + json option" where
  "json_if_text r =
     (if rtext r = [] then Inr None
      else case rjson r of Inl m \<Rightarrow> Inl (JSONDecodeError m) | Inr j \<Rightarrow> Inr (Some j))"

definition handle_response :: "string \<Rightarrow> response \<Rightarrow> exc + json" where
  "handle_response path r =
     (if status_code r = 404 then Inl (NotFoundError (''Resource not found: '' @ path) None)
      else if status_code r = 400 then
        (case json_if_text r of
           Inl e \<Rightarrow> Inl e
         | Inr j \<Rightarrow> Inl (ValidationError (''Validation error: '' @ rtext r) j))
      else if status_code r = 401 then Inl (AuthenticationError ''Authentication required'' None)
      else if status_code r = 429 then
        (case headers_get (headers r) ''Retry-After'' of
           None \<Rightarrow> Inl (RateLimitError ''Rate limit exceeded'' None None)
         | Some ra \<Rightarrow>
             if ra = [] then Inl (RateLimitError ''Rate limit exceeded'' None None)
             else (case py_int_of_str ra of
                     Inl e \<Rightarrow> Inl e
                   | Inr n \<Rightarrow> Inl (RateLimitError ''Rate limit exceeded'' (Some n) None)))
      else if status_code r \<ge> 500 then
        Inl (ServerError (''Server error: '' @ str_int (status_code r)) (status_code r) None)
      else if \<not> is_success r then
        (case json_if_text r of
           Inl e \<Rightarrow> Inl e
         | Inr j \<Rightarrow> Inl (APIError (''API error: '' @ str_int (status_code r)) (status_code r) j))
      else if status_code r = 204 \<or> rtext r = [] then Inr (JObj [])
      else (case rjson r of
              Inl m \<Rightarrow> Inl (APIError (''Invalid JSON response: '' @ m) (status_code r) None)
            | Inr j \<Rightarrow> Inr j))"

text \<open>\<open>_request\<close>: the request is issued, then the outcome is mapped.\<close>

definition mk_request :: "client \<Rightarrow> string \<Rightarrow> string \<Rightarrow> json option \<Rightarrow> request" where
  "mk_request c method path body =
     \<lparr> req_method = method, req_url = base_url c @ ''/'' @ lstrip_chars {CHR ''/''} path,
       req_json = body \<rparr>"

definition client_request :: "client \<Rightarrow> transport \<Rightarrow> string \<Rightarrow> string \<Rightarrow> json option \<Rightarrow> request list
    \<Rightarrow> (exc + json) \<times> request list" where
  "client_request c tr method path body sent =
     (let rq = mk_request c method path body;
          sent' = sent @ [rq]
      in case tr sent rq of
           TimeoutException \<Rightarrow>
             (Inl (APIError (''Request timed out after '' @ timeout c @ ''s'') 0 None), sent')
         | RequestError m \<Rightarrow> (Inl (APIError (''Request failed: '' @ m) 0 None), sent')
         | Response r \<Rightarrow> (handle_response path r, sent'))"

text \<open>\<open>create_bounty\<close> raises before it touches the transport.\<close>

definition create_bounty :: "client \<Rightarrow> transport \<Rightarrow> string \<Rightarrow> string \<Rightarrow> decimal \<Rightarrow> string list
    \<Rightarrow> string list option \<Rightarrow> string option \<Rightarrow> request list
    \<Rightarrow> (exc + bounty_obj) \<times> request list" where
  "create_bounty c tr a_title a_description a_reward_usdc a_requirements a_tags a_deadline sent =
     (Inl (NotImplementedError
        (''x402 payment implementation required. '' @
         ''Use the x402 library to sign payments and include X-Payment header.'')), sent)"

section \<open>Test fixtures\<close>

text \<open>The open bounty of \<open>tests/conftest.py\<close> as a \<open>Bounty\<close> object, with the identifier and
  the deadline left open.\<close>

definition sample_bounty :: "string \<Rightarrow> deadline option \<Rightarrow> bounty" where
  "sample_bounty i dl =
     \<lparr> bounty_id = i,
       uuid = ''7c590dc7-93f0-4ba7-a2e6-7c430bb29b96'',
       title = ''Write AI Agent Negotiation Simulation'',
       description = ''Create a simulation showing two AI agents negotiating...'',
       reward = 20000000,
       reward_formatted = ''20.00 USDC'',
       status = OPEN,
       creator = ''0xccD7200024A8B5708d381168ec2dB0DC587af83F'',
       deadline = dl,
       tags = [''coding'', ''simulation'', ''agents'', ''coordination''],
       requirements = [''Working negotiation demo'', ''2+ agent interaction'',
                       ''Protocol documentation'', ''Source code''],
       submissions = [],
       created_at = Datetime 1770449294859000 None,
       updated_at = Datetime 1770449294859000 None,
       claimed_by = None,
       claimed_at = None,
       approved_at = None,
       completed_at = None,
       payment_error = None,
       pending_payment = None,
       payment = None,
       rejections = [] \<rparr>"

text \<open>The payments of \<open>tests/test_models.py\<close>.\<close>

definition sample_payment :: payment where
  "sample_payment =
     \<lparr> fee = 28650000, chain = ''base'', token = ''USDC'', net_reward = 544350000,
       gross_reward = 573000000, tx_hash = ''0xabc123'',
       processed_at = Datetime 1770441207394000 (Some 0),
       processed_by = ''payment-relay'', fee_percent = ''5%'',
       fee_formatted = ''28.65 USDC'', net_reward_formatted = ''544.35 USDC'' \<rparr>"

definition sample_pending_payment :: pending_payment where
  "sample_pending_payment =
     \<lparr> pending_fee = 1500000, pending_chain = ''base'', pending_token = ''USDC'',
       pending_net_reward = 28500000, pending_gross_reward = 30000000,
       recipient = ''0x123'' \<rparr>"

section \<open>Kinds of failure\<close>

text \<open>A computation whose exceptions, if any, are Python built-ins: none is an instance of
  \<open>OwockibotError\<close>.\<close>

definition builtin_only :: "exc + 'a \<Rightarrow> bool" where
  "builtin_only m = (\<forall>e. m = Inl e \<longrightarrow> \<not> is_OwockibotError e)"

section \<open>Basic facts about sequencing\<close>

lemma bind_eq_Inr: "bind m f = Inr y \<longleftrightarrow> (\<exists>x. m = Inr x \<and> f x = Inr y)"
  by (cases m) (simp_all add: bind_def)

lemma bind_Inr [simp]: "bind (Inr x) f = f x"
  by (simp add: bind_def)

lemma bind_Inl [simp]: "bind (Inl e) f = Inl e"
  by (simp add: bind_def)

section \<open>Verified properties: the request client\<close>

lemma str_int_500: "str_int 500 = ''500''"
  by code_simp

lemma py_int_of_str_5: "py_int_of_str ''5'' = Inr 5"
  by (simp add: py_int_of_str_def rstrip_chars_def lstrip_chars_def py_whitespace_def
      digits_value_def is_digit_def)

lemma headers_get_lowercase_key:
  "headers_get [(''retry-after'', ''5'')] ''Retry-After'' = Some ''5''"
  by code_simp

text \<open>
  C6. Whatever the request: a response with status 404 raises \<open>NotFoundError\<close>; a response
  with status 429 whose \<open>Retry-After\<close> header reads \<open>5\<close> raises \<open>RateLimitError\<close> with
  \<open>retry_after = 5\<close>; a response with status 500 raises \<open>ServerError\<close> with
  \<open>status_code = 500\<close>; a timeout of the transport raises an \<open>APIError\<close> with
  \<open>status_code = 0\<close>.
\<close>

theorem request_error_mapping:
  "(\<forall>r. tr sent (mk_request c method path body) = Response r \<longrightarrow> status_code r = 404 \<longrightarrow>
       fst (client_request c tr method path body sent)
         = Inl (NotFoundError (''Resource not found: '' @ path) None))
   \<and> (\<forall>r. tr sent (mk_request c method path body) = Response r \<longrightarrow> status_code r = 429 \<longrightarrow>
         headers_get (headers r) ''Retry-After'' = Some ''5'' \<longrightarrow>
       fst (client_request c tr method path body sent)
         = Inl (RateLimitError ''Rate limit exceeded'' (Some 5) None))
   \<and> (\<forall>r. tr sent (mk_request c method path body) = Response r \<longrightarrow> status_code r = 500 \<longrightarrow>
       fst (client_request c tr method path body sent)
         = Inl (ServerError ''Server error: 500'' 500 None))
   \<and> (tr sent (mk_request c method path body) = TimeoutException \<longrightarrow>
       fst (client_request c tr method path body sent)
         = Inl (APIError (''Request timed out after '' @ timeout c @ ''s'') 0 None))"
  by (simp add: client_request_def handle_response_def Let_def str_int_500 py_int_of_str_5)

theorem request_error_mapping_witness:
  "fst (client_request (client_init DEFAULT_BASE_URL ''30.0'' None)
          (\<lambda>_ _. Response \<lparr> status_code = 404, headers = [], rtext = [], rjson = Inl [] \<rparr>)
          ''GET'' ''/bounties/999'' None [])
     = Inl (NotFoundError ''Resource not found: /bounties/999'' None)
   \<and> status_code_of (NotFoundError ''Resource not found: /bounties/999'' None) = Some 404
   \<and> fst (client_request (client_init DEFAULT_BASE_URL ''30.0'' None)
          (\<lambda>_ _. Response \<lparr> status_code = 429, headers = [(''retry-after'', ''5'')],
                              rtext = [], rjson = Inl [] \<rparr>)
          ''GET'' ''/bounties'' None [])
     = Inl (RateLimitError ''Rate limit exceeded'' (Some 5) None)
   \<and> fst (client_request (client_init DEFAULT_BASE_URL ''30.0'' None)
          (\<lambda>_ _. Response \<lparr> status_code = 500, headers = [], rtext = ''oops'', rjson = Inl [] \<rparr>)
          ''GET'' ''/stats'' None [])
     = Inl (ServerError ''Server error: 500'' 500 None)
   \<and> fst (client_request (client_init DEFAULT_BASE_URL ''30.0'' None)
          (\<lambda>_ _. TimeoutException) ''GET'' ''/stats'' None [])
     = Inl (APIError ''Request timed out after 30.0s'' 0 None)"
proof -
  let ?c = "client_init DEFAULT_BASE_URL ''30.0'' None"
  let ?r404 = "\<lparr> status_code = 404, headers = [], rtext = [], rjson = Inl [] \<rparr>"
  let ?r429 = "\<lparr> status_code = 429, headers = [(''retry-after'', ''5'')],
                 rtext = [], rjson = Inl [] \<rparr>"
  let ?r500 = "\<lparr> status_code = 500, headers = [], rtext = ''oops'', rjson = Inl [] \<rparr>"
  have h: "headers_get (headers ?r429) ''Retry-After'' = Some ''5''"
    by (simp add: headers_get_lowercase_key)
  have t: "timeout ?c = ''30.0''"
    by (simp add: client_init_def)
  show ?thesis
    using request_error_mapping [of "\<lambda>_ _. Response ?r404" "[]" ?c "''GET''" "''/bounties/999''" None]
      request_error_mapping [of "\<lambda>_ _. Response ?r429" "[]" ?c "''GET''" "''/bounties''" None]
      request_error_mapping [of "\<lambda>_ _. Response ?r500" "[]" ?c "''GET''" "''/stats''" None]
      request_error_mapping [of "\<lambda>_ _. TimeoutException" "[]" ?c "''GET''" "''/stats''" None]
      h t
    by simp
qed

text \<open>
  C8. Whatever its arguments, \<open>create_bounty\<close> raises \<open>NotImplementedError\<close> with the message
  that payment signing is required, and the list of requests issued is unchanged: nothing
  reaches the transport. The exception is not an \<open>APIError\<close>, the class every transport and
  HTTP failure is mapped to, nor any other class of the SDK's hierarchy.
\<close>

theorem create_bounty_fails_before_any_request:
  "create_bounty c tr a_title a_description a_reward a_requirements a_tags a_deadline sent =
     (Inl (NotImplementedError
        ''x402 payment implementation required. Use the x402 library to sign payments and include X-Payment header.''), sent)
   \<and> \<not> is_APIError (NotImplementedError
        ''x402 payment implementation required. Use the x402 library to sign payments and include X-Payment header.'')
   \<and> \<not> is_OwockibotError (NotImplementedError
        ''x402 payment implementation required. Use the x402 library to sign payments and include X-Payment header.'')"
  by (simp add: create_bounty_def)

section \<open>Verified properties: the filter builder\<close>

lemma filter_e_Inr:
  "filter_e p xs = Inr ys \<Longrightarrow> set ys \<subseteq> set xs \<and> (\<forall>y \<in> set ys. p y = Inr True)"
proof (induction xs arbitrary: ys)
  case Nil
  then show ?case by simp
next
  case (Cons x xs)
  from Cons.prems obtain keep zs where k: "p x = Inr keep" and z: "filter_e p xs = Inr zs"
    and y: "ys = (if keep then x # zs else zs)"
    by (auto simp: bind_eq_Inr)
  from Cons.IH [OF z] have "set zs \<subseteq> set xs" and "\<forall>y \<in> set zs. p y = Inr True"
    by simp_all
  with k y show ?case by (cases keep) auto
qed

lemma filter_e_all_true: "(\<forall>x \<in> set xs. p x = Inr True) \<Longrightarrow> filter_e p xs = Inr xs"
  by (induction xs) simp_all

lemma stage_stable:
  assumes "stage c p xs = Inr ys" and "set zs \<subseteq> set ys"
  shows "stage c p zs = Inr zs"
proof (cases c)
  case True
  with assms(1) have "filter_e p xs = Inr ys" by (simp add: stage_def)
  then have "\<forall>y \<in> set ys. p y = Inr True" by (simp add: filter_e_Inr)
  with assms(2) have "\<forall>z \<in> set zs. p z = Inr True" by blast
  with True show ?thesis by (simp add: stage_def filter_e_all_true)
next
  case False
  then show ?thesis by (simp add: stage_def)
qed

lemma stage_subset: "stage c p xs = Inr ys \<Longrightarrow> set ys \<subseteq> set xs"
  by (cases c) (simp_all add: stage_def filter_e_Inr)

lemma apply_filter_fixed:
  assumes "apply_filter f bs = Inr r"
  shows "apply_filter f r = Inr r"
proof -
  from assms obtain r1 r2 r3 r4 r5 r6 r7 where
    s1: "stage (statuses f \<noteq> []) (\<lambda>b. Inr (status b \<in> set (statuses f))) bs = Inr r1" and
    s2: "stage (filter_tags f \<noteq> [])
           (\<lambda>b. Inr (list_all (\<lambda>t. lower t \<in> set (map lower (tags b))) (filter_tags f))) r1 = Inr r2" and
    s3: "stage (min_reward f \<noteq> None)
           (\<lambda>b. bind (reward_usdc b) (\<lambda>r. dec_ge r (the (min_reward f)))) r2 = Inr r3" and
    s4: "stage (max_reward f \<noteq> None)
           (\<lambda>b. bind (reward_usdc b) (\<lambda>r. dec_le r (the (max_reward f)))) r3 = Inr r4" and
    s5: "stage (truthy_str (filter_creator f))
           (\<lambda>b. Inr (lower (creator b) = the (filter_creator f))) r4 = Inr r5" and
    s6: "stage (truthy_str (filter_claimed_by f))
           (\<lambda>b. Inr (truthy_str (claimed_by b)
                      \<and> lower (the (claimed_by b)) = the (filter_claimed_by f))) r5 = Inr r6" and
    s7: "stage (truthy_str (search_query f))
           (\<lambda>b. Inr (contains (the (search_query f)) (lower (title b))
                      \<or> contains (the (search_query f)) (lower (description b)))) r6 = Inr r7" and
    s8: "stage (custom_filter f \<noteq> None) (the (custom_filter f)) r7 = Inr r"
    unfolding apply_filter_def bind_eq_Inr by blast
  have i8: "set r \<subseteq> set r" by simp
  have i7: "set r \<subseteq> set r7" using stage_subset [OF s8] .
  have i6: "set r \<subseteq> set r6" using stage_subset [OF s7] i7 by blast
  have i5: "set r \<subseteq> set r5" using stage_subset [OF s6] i6 by blast
  have i4: "set r \<subseteq> set r4" using stage_subset [OF s5] i5 by blast
  have i3: "set r \<subseteq> set r3" using stage_subset [OF s4] i4 by blast
  have i2: "set r \<subseteq> set r2" using stage_subset [OF s3] i3 by blast
  have i1: "set r \<subseteq> set r1" using stage_subset [OF s2] i2 by blast
  show ?thesis
    unfolding apply_filter_def
    by (simp only: stage_stable [OF s1 i1] stage_stable [OF s2 i2] stage_stable [OF s3 i3]
        stage_stable [OF s4 i4] stage_stable [OF s5 i5] stage_stable [OF s6 i6]
        stage_stable [OF s7 i7] stage_stable [OF s8 i8] bind_Inr)
qed


section \<open>Verified properties: missing keys\<close>

lemma getitem_Inr_iff [simp]: "getitem (JObj kvs) k = Inr v \<longleftrightarrow> map_of kvs k = Some v"
  by (simp split: option.splits)

lemma builtin_only_Inr [simp]: "builtin_only (Inr x)"
  by (simp add: builtin_only_def)

lemma builtin_only_bind:
  "builtin_only m \<Longrightarrow> (\<And>x. builtin_only (f x)) \<Longrightarrow> builtin_only (bind m f)"
  by (cases m) (simp_all add: builtin_only_def)

lemma builtin_only_getitem: "builtin_only (getitem d k)"
  by (cases d) (simp_all add: builtin_only_def split: option.splits)

lemma builtin_only_get: "builtin_only (get d k v)"
  by (cases d) (simp_all add: builtin_only_def)

lemma builtin_only_py_iter: "builtin_only (py_iter d)"
  by (cases d) (simp_all add: builtin_only_def)

lemma builtin_only_traverse: "(\<And>x. builtin_only (f x)) \<Longrightarrow> builtin_only (traverse f xs)"
  by (induction xs) (simp_all add: builtin_only_bind)

lemma builtin_only_fromtimestamp: "builtin_only (fromtimestamp x)"
  by (cases x) (simp_all add: builtin_only_def Let_def)

lemma builtin_only_fromisoformat: "builtin_only (fromisoformat iso8601 s)"
  by (simp add: builtin_only_def fromisoformat_def split: option.splits)

lemma builtin_only_parse_timestamp: "builtin_only (parse_timestamp iso8601 ts)"
  unfolding parse_timestamp_def
  by (cases ts) (simp_all add: builtin_only_fromtimestamp builtin_only_fromisoformat
      builtin_only_def [of "Inl AttributeError"])

lemma builtin_only_iso_field: "builtin_only (iso_field iso8601 v)"
  unfolding iso_field_def
  by (cases v) (simp_all add: builtin_only_fromisoformat builtin_only_def [of "Inl AttributeError"])

lemma builtin_only_BountyStatus_of: "builtin_only (BountyStatus_of v)"
  by (simp add: builtin_only_def BountyStatus_of_def split: json.splits list.splits)

lemma builtin_only_optional_field:
  "(\<And>w. builtin_only (f w)) \<Longrightarrow> builtin_only (optional_field d k f)"
  unfolding optional_field_def
  by (intro builtin_only_bind builtin_only_get) (simp add: builtin_only_bind builtin_only_getitem)

lemma builtin_only_parse_deadline: "builtin_only (parse_deadline d)"
  unfolding parse_deadline_def
  by (intro builtin_only_bind builtin_only_get)
    (simp add: builtin_only_bind builtin_only_fromtimestamp split: option.splits)

lemmas builtin_only_intros =
  builtin_only_bind builtin_only_getitem builtin_only_get builtin_only_py_iter
  builtin_only_traverse builtin_only_parse_timestamp builtin_only_iso_field
  builtin_only_BountyStatus_of builtin_only_optional_field builtin_only_parse_deadline
  builtin_only_Inr

lemma builtin_only_Submission: "builtin_only (Submission_from_dict iso8601 d)"
  unfolding Submission_from_dict_def by (intro builtin_only_intros)

lemma builtin_only_Rejection: "builtin_only (Rejection_from_dict iso8601 d)"
  unfolding Rejection_from_dict_def by (intro builtin_only_intros builtin_only_Submission)

lemma builtin_only_PendingPayment: "builtin_only (PendingPayment_from_dict d)"
  unfolding PendingPayment_from_dict_def by (intro builtin_only_intros)

lemma builtin_only_Payment: "builtin_only (Payment_from_dict iso8601 d)"
  unfolding Payment_from_dict_def by (intro builtin_only_intros)

lemma builtin_only_Bounty: "builtin_only (Bounty_from_dict iso8601 d)"
  unfolding Bounty_from_dict_def
  by (intro builtin_only_intros builtin_only_Submission builtin_only_Rejection
      builtin_only_PendingPayment builtin_only_Payment)

lemma builtin_only_Stats: "builtin_only (Stats_from_dict d)"
  unfolding Stats_from_dict_def by (intro builtin_only_intros)

lemma builtin_only_TokenConfig: "builtin_only (TokenConfig_from_dict d)"
  unfolding TokenConfig_from_dict_def by (intro builtin_only_intros)

lemma builtin_only_X402Config: "builtin_only (X402Config_from_dict d)"
  unfolding X402Config_from_dict_def by (intro builtin_only_intros builtin_only_TokenConfig)

lemma fails_builtin:
  assumes "builtin_only m" and "\<And>x. m \<noteq> Inr x"
  shows "\<exists>e. m = Inl e \<and> \<not> is_OwockibotError e"
  using assms by (cases m) (auto simp: builtin_only_def)

lemma Submission_keys:
  "Submission_from_dict iso8601 (JObj kvs) = Inr x \<Longrightarrow> k \<in> set Submission_required \<Longrightarrow> map_of kvs k \<noteq> None"
  by (auto simp: Submission_from_dict_def Submission_required_def bind_eq_Inr simp del: getitem.simps)

lemma Rejection_keys:
  "Rejection_from_dict iso8601 (JObj kvs) = Inr x \<Longrightarrow> k \<in> set Rejection_required \<Longrightarrow> map_of kvs k \<noteq> None"
  by (auto simp: Rejection_from_dict_def Rejection_required_def bind_eq_Inr simp del: getitem.simps)

lemma PendingPayment_keys:
  "PendingPayment_from_dict (JObj kvs) = Inr x \<Longrightarrow> k \<in> set PendingPayment_required \<Longrightarrow> map_of kvs k \<noteq> None"
  by (auto simp: PendingPayment_from_dict_def PendingPayment_required_def bind_eq_Inr simp del: getitem.simps)

lemma Payment_keys:
  "Payment_from_dict iso8601 (JObj kvs) = Inr x \<Longrightarrow> k \<in> set Payment_required \<Longrightarrow> map_of kvs k \<noteq> None"
  by (auto simp: Payment_from_dict_def Payment_required_def bind_eq_Inr simp del: getitem.simps)

lemma Bounty_keys:
  "Bounty_from_dict iso8601 (JObj kvs) = Inr x \<Longrightarrow> k \<in> set Bounty_required \<Longrightarrow> map_of kvs k \<noteq> None"
  by (auto simp: Bounty_from_dict_def Bounty_required_def bind_eq_Inr simp del: getitem.simps)

lemma Stats_keys:
  "Stats_from_dict (JObj kvs) = Inr x \<Longrightarrow> k \<in> set Stats_required \<Longrightarrow> map_of kvs k \<noteq> None"
  by (auto simp: Stats_from_dict_def Stats_required_def bind_eq_Inr simp del: getitem.simps)

lemma TokenConfig_keys:
  "TokenConfig_from_dict (JObj kvs) = Inr x \<Longrightarrow> k \<in> set TokenConfig_required \<Longrightarrow> map_of kvs k \<noteq> None"
  by (auto simp: TokenConfig_from_dict_def TokenConfig_required_def bind_eq_Inr simp del: getitem.simps)

lemma X402Config_keys:
  "X402Config_from_dict (JObj kvs) = Inr x \<Longrightarrow> k \<in> set X402Config_required \<Longrightarrow> map_of kvs k \<noteq> None"
  by (auto simp: X402Config_from_dict_def X402Config_required_def bind_eq_Inr simp del: getitem.simps)



lemma Stats_KeyError:
  "k \<in> set Stats_required \<Longrightarrow> map_of kvs k = None \<Longrightarrow>
     \<exists>k' \<in> set Stats_required. map_of kvs k' = None \<and> Stats_from_dict (JObj kvs) = Inl (KeyError k')"
  by (auto simp: Stats_from_dict_def Stats_required_def split: option.splits)

lemma TokenConfig_KeyError:
  "k \<in> set TokenConfig_required \<Longrightarrow> map_of kvs k = None \<Longrightarrow>
     \<exists>k' \<in> set TokenConfig_required. map_of kvs k' = None \<and> TokenConfig_from_dict (JObj kvs) = Inl (KeyError k')"
  by (auto simp: TokenConfig_from_dict_def TokenConfig_required_def split: option.splits)

lemma PendingPayment_KeyError:
  "k \<in> set PendingPayment_required \<Longrightarrow> map_of kvs k = None \<Longrightarrow>
     \<exists>k' \<in> set PendingPayment_required. map_of kvs k' = None \<and> PendingPayment_from_dict (JObj kvs) = Inl (KeyError k')"
  by (auto simp: PendingPayment_from_dict_def PendingPayment_required_def split: option.splits)

text \<open>
  C1, as the code has it. For each of the eight classes and each JSON object that lacks
  one of the keys \<open>from_dict\<close> reads by subscript, \<open>from_dict\<close> returns no object: it
  raises a Python built-in exception, never an exception of the SDK's hierarchy.
  For the classes whose fields are all stored unconverted (\<open>PendingPayment\<close>, \<open>Stats\<close>,
  \<open>TokenConfig\<close>) the exception is \<open>KeyError\<close> for a key that is missing.
\<close>

theorem from_dict_missing_key_fails:
  "(\<forall>k \<in> set Bounty_required. map_of kvs k = None \<longrightarrow>
      (\<exists>e. Bounty_from_dict iso8601 (JObj kvs) = Inl e \<and> \<not> is_OwockibotError e))
   \<and> (\<forall>k \<in> set Submission_required. map_of kvs k = None \<longrightarrow>
      (\<exists>e. Submission_from_dict iso8601 (JObj kvs) = Inl e \<and> \<not> is_OwockibotError e))
   \<and> (\<forall>k \<in> set Rejection_required. map_of kvs k = None \<longrightarrow>
      (\<exists>e. Rejection_from_dict iso8601 (JObj kvs) = Inl e \<and> \<not> is_OwockibotError e))
   \<and> (\<forall>k \<in> set Payment_required. map_of kvs k = None \<longrightarrow>
      (\<exists>e. Payment_from_dict iso8601 (JObj kvs) = Inl e \<and> \<not> is_OwockibotError e))
   \<and> (\<forall>k \<in> set PendingPayment_required. map_of kvs k = None \<longrightarrow>
      (\<exists>k' \<in> set PendingPayment_required. map_of kvs k' = None \<and> PendingPayment_from_dict (JObj kvs) = Inl (KeyError k')))
   \<and> (\<forall>k \<in> set Stats_required. map_of kvs k = None \<longrightarrow>
      (\<exists>k' \<in> set Stats_required. map_of kvs k' = None \<and> Stats_from_dict (JObj kvs) = Inl (KeyError k')))
   \<and> (\<forall>k \<in> set TokenConfig_required. map_of kvs k = None \<longrightarrow>
      (\<exists>k' \<in> set TokenConfig_required. map_of kvs k' = None \<and> TokenConfig_from_dict (JObj kvs) = Inl (KeyError k')))
   \<and> (\<forall>k \<in> set X402Config_required. map_of kvs k = None \<longrightarrow>
      (\<exists>e. X402Config_from_dict (JObj kvs) = Inl e \<and> \<not> is_OwockibotError e))"
proof (intro conjI ballI impI)
  fix k assume "k \<in> set Bounty_required" "map_of kvs k = None"
  then show "\<exists>e. Bounty_from_dict iso8601 (JObj kvs) = Inl e \<and> \<not> is_OwockibotError e"
    using Bounty_keys by (intro fails_builtin builtin_only_Bounty) blast
next
  fix k assume "k \<in> set Submission_required" "map_of kvs k = None"
  then show "\<exists>e. Submission_from_dict iso8601 (JObj kvs) = Inl e \<and> \<not> is_OwockibotError e"
    using Submission_keys by (intro fails_builtin builtin_only_Submission) blast
next
  fix k assume "k \<in> set Rejection_required" "map_of kvs k = None"
  then show "\<exists>e. Rejection_from_dict iso8601 (JObj kvs) = Inl e \<and> \<not> is_OwockibotError e"
    using Rejection_keys by (intro fails_builtin builtin_only_Rejection) blast
next
  fix k assume "k \<in> set Payment_required" "map_of kvs k = None"
  then show "\<exists>e. Payment_from_dict iso8601 (JObj kvs) = Inl e \<and> \<not> is_OwockibotError e"
    using Payment_keys by (intro fails_builtin builtin_only_Payment) blast
next
  fix k assume "k \<in> set PendingPayment_required" "map_of kvs k = None"
  then show "\<exists>k' \<in> set PendingPayment_required. map_of kvs k' = None \<and> PendingPayment_from_dict (JObj kvs) = Inl (KeyError k')"
    by (rule PendingPayment_KeyError)
next
  fix k assume "k \<in> set Stats_required" "map_of kvs k = None"
  then show "\<exists>k' \<in> set Stats_required. map_of kvs k' = None \<and> Stats_from_dict (JObj kvs) = Inl (KeyError k')"
    by (rule Stats_KeyError)
next
  fix k assume "k \<in> set TokenConfig_required" "map_of kvs k = None"
  then show "\<exists>k' \<in> set TokenConfig_required. map_of kvs k' = None \<and> TokenConfig_from_dict (JObj kvs) = Inl (KeyError k')"
    by (rule TokenConfig_KeyError)
next
  fix k assume "k \<in> set X402Config_required" "map_of kvs k = None"
  then show "\<exists>e. X402Config_from_dict (JObj kvs) = Inl e \<and> \<not> is_OwockibotError e"
    using X402Config_keys by (intro fails_builtin builtin_only_X402Config) blast
qed

theorem from_dict_missing_key_fails_witness:
  "''uuid'' \<in> set Bounty_required \<and> map_of [(''id'', JStr ''143'')] ''uuid'' = None
   \<and> (\<exists>e. Bounty_from_dict (\<lambda>s. None) (JObj [(''id'', JStr ''143'')]) = Inl e \<and> \<not> is_OwockibotError e)
   \<and> ''content'' \<in> set Submission_required
   \<and> (\<exists>e. Submission_from_dict (\<lambda>s. None) (JObj [(''id'', JStr ''143'')]) = Inl e \<and> \<not> is_OwockibotError e)
   \<and> ''reason'' \<in> set Rejection_required
   \<and> (\<exists>e. Rejection_from_dict (\<lambda>s. None) (JObj [(''id'', JStr ''143'')]) = Inl e \<and> \<not> is_OwockibotError e)
   \<and> ''fee'' \<in> set Payment_required
   \<and> (\<exists>e. Payment_from_dict (\<lambda>s. None) (JObj [(''id'', JStr ''143'')]) = Inl e \<and> \<not> is_OwockibotError e)
   \<and> ''fee'' \<in> set PendingPayment_required
   \<and> (\<exists>k' \<in> set PendingPayment_required. map_of [(''id'', JStr ''143'')] k' = None \<and> PendingPayment_from_dict (JObj [(''id'', JStr ''143'')]) = Inl (KeyError k'))
   \<and> ''totalBounties'' \<in> set Stats_required
   \<and> (\<exists>k' \<in> set Stats_required. map_of [(''id'', JStr ''143'')] k' = None \<and> Stats_from_dict (JObj [(''id'', JStr ''143'')]) = Inl (KeyError k'))
   \<and> ''network'' \<in> set TokenConfig_required
   \<and> (\<exists>k' \<in> set TokenConfig_required. map_of [(''id'', JStr ''143'')] k' = None \<and> TokenConfig_from_dict (JObj [(''id'', JStr ''143'')]) = Inl (KeyError k'))
   \<and> ''version'' \<in> set X402Config_required
   \<and> (\<exists>e. X402Config_from_dict (JObj [(''id'', JStr ''143'')]) = Inl e \<and> \<not> is_OwockibotError e)"
proof -
  have m: "''uuid'' \<in> set Bounty_required" "''content'' \<in> set Submission_required"
    "''reason'' \<in> set Rejection_required" "''fee'' \<in> set Payment_required"
    "''fee'' \<in> set PendingPayment_required" "''totalBounties'' \<in> set Stats_required"
    "''network'' \<in> set TokenConfig_required" "''version'' \<in> set X402Config_required"
    by (simp_all add: Bounty_required_def Submission_required_def Rejection_required_def
        Payment_required_def PendingPayment_required_def Stats_required_def
        TokenConfig_required_def X402Config_required_def)
  have n: "map_of [(''id'', JStr ''143'')] ''uuid'' = None"
    "map_of [(''id'', JStr ''143'')] ''content'' = None"
    "map_of [(''id'', JStr ''143'')] ''reason'' = None"
    "map_of [(''id'', JStr ''143'')] ''fee'' = None"
    "map_of [(''id'', JStr ''143'')] ''totalBounties'' = None"
    "map_of [(''id'', JStr ''143'')] ''network'' = None"
    "map_of [(''id'', JStr ''143'')] ''version'' = None"
    by simp_all
  note T = from_dict_missing_key_fails [of "[(''id'', JStr ''143'')]" "\<lambda>s. None"]
  note c1 = T [THEN conjunct1, THEN bspec, OF m(1), THEN mp, OF n(1)]
  note T2 = T [THEN conjunct2]
  note c2 = T2 [THEN conjunct1, THEN bspec, OF m(2), THEN mp, OF n(2)]
  note T3 = T2 [THEN conjunct2]
  note c3 = T3 [THEN conjunct1, THEN bspec, OF m(3), THEN mp, OF n(3)]
  note T4 = T3 [THEN conjunct2]
  note c4 = T4 [THEN conjunct1, THEN bspec, OF m(4), THEN mp, OF n(4)]
  note T5 = T4 [THEN conjunct2]
  note c5 = T5 [THEN conjunct1, THEN bspec, OF m(5), THEN mp, OF n(4)]
  note T6 = T5 [THEN conjunct2]
  note c6 = T6 [THEN conjunct1, THEN bspec, OF m(6), THEN mp, OF n(5)]
  note T7 = T6 [THEN conjunct2]
  note c7 = T7 [THEN conjunct1, THEN bspec, OF m(7), THEN mp, OF n(6)]
  note c8 = T7 [THEN conjunct2, THEN bspec, OF m(8), THEN mp, OF n(7)]
  show ?thesis
    by (intro conjI) (fact m n c1 c2 c3 c4 c5 c6 c7 c8)+
qed

text \<open>
  C1 as stated fails: a \<open>Stats\<close> object without \<open>totalBounties\<close> and a \<open>Bounty\<close> object
  without \<open>id\<close> raise \<open>KeyError\<close>, which is no class of \<open>exceptions.py\<close>.
\<close>

theorem from_dict_missing_key_counterexample:
  "Stats_from_dict (JObj [(''openBounties'', JInt 21)]) = Inl (KeyError ''totalBounties'')
   \<and> \<not> is_OwockibotError (KeyError ''totalBounties'')
   \<and> Bounty_from_dict (\<lambda>s. None) (JObj []) = Inl (KeyError ''id'')
   \<and> \<not> is_OwockibotError (KeyError ''id'')"
  by (simp add: Stats_from_dict_def Bounty_from_dict_def parse_deadline_def)

section \<open>Verified properties: the timestamp normalizer\<close>

lemma round_half_even_of_int: "round_half_even (of_int k) = k"
  by (simp add: round_half_even_def)

lemma fromtimestamp_millis:
  assumes "- 62135510400000 \<le> n" and "n \<le> 253402300799999"
  shows "fromtimestamp (Fin (of_int n / 1000)) = Inr (Datetime (1000 * n) None)"
proof -
  have e: "(of_int n / 1000 * 1000000 :: rat) = of_int (1000 * n)" by simp
  have lo: "\<not> (of_int n / 1000 :: rat) < - (2 ^ 63)"
  proof -
    have "- (2 ^ 63) * 1000 \<le> (of_int n :: rat)"
    proof -
      have "(- (2 ^ 63) * 1000 :: int) \<le> n" using assms(1) by simp
      then have "(of_int (- (2 ^ 63) * 1000) :: rat) \<le> of_int n" by (simp only: of_int_le_iff)
      then show ?thesis by simp
    qed
    then show ?thesis by (simp add: pos_less_divide_eq)
  qed
  have hi: "\<not> 2 ^ 63 \<le> (of_int n / 1000 :: rat)"
  proof -
    have "(of_int n :: rat) < 2 ^ 63 * 1000"
    proof -
      have "n < 2 ^ 63 * 1000" using assms(2) by simp
      then have "(of_int n :: rat) < of_int (2 ^ 63 * 1000)" by (simp only: of_int_less_iff)
      then show ?thesis by simp
    qed
    then show ?thesis by (simp add: pos_le_divide_eq)
  qed
  show ?thesis
    using assms lo hi by (simp only: fromtimestamp.simps e round_half_even_of_int Let_def) simp
qed

lemma fromtimestamp_seconds:
  assumes "- 62135510400 \<le> n" and "n \<le> 253402300799"
  shows "fromtimestamp (Fin (of_int n)) = Inr (Datetime (1000000 * n) None)"
proof -
  have e: "(of_int n * 1000000 :: rat) = of_int (1000000 * n)" by simp
  have lo: "\<not> (of_int n :: rat) < - (2 ^ 63)"
  proof -
    have "(- (2 ^ 63) :: int) \<le> n" using assms(1) by simp
    then have "(of_int (- (2 ^ 63)) :: rat) \<le> of_int n" by (simp only: of_int_le_iff)
    then show ?thesis by simp
  qed
  have hi: "\<not> 2 ^ 63 \<le> (of_int n :: rat)"
  proof -
    have "n < 2 ^ 63" using assms(2) by simp
    then have "(of_int n :: rat) < of_int (2 ^ 63)" by (simp only: of_int_less_iff)
    then show ?thesis by simp
  qed
  show ?thesis
    using assms lo hi by (simp only: fromtimestamp.simps e round_half_even_of_int Let_def) simp
qed

lemma replace_Z_no_Z: "CHR ''Z'' \<notin> set p \<Longrightarrow> replace_Z p = p"
  by (induction p) (auto simp: replace_Z_def)

lemma replace_Z_append: "replace_Z (p @ q) = replace_Z p @ replace_Z q"
  by (simp add: replace_Z_def)

lemma replace_Z_trailing: "CHR ''Z'' \<notin> set p \<Longrightarrow> replace_Z (p @ ''Z'') = p @ ''+00:00''"
  by (simp add: replace_Z_append replace_Z_no_Z) (simp add: replace_Z_def)







section \<open>Verified properties: the deadline of a bounty\<close>

lemma fromtimestamp_millis_Inr:
  assumes "fromtimestamp (Fin (of_int n / 1000)) = Inr d"
  shows "d = Datetime (1000 * n) None"
proof -
  have e: "(of_int n / 1000 * 1000000 :: rat) = of_int (1000 * n)" by simp
  from assms show ?thesis
    by (simp only: fromtimestamp.simps e round_half_even_of_int Let_def split: if_splits) simp_all
qed

lemma Bounty_from_dict_deadline:
  "Bounty_from_dict iso8601 data = Inr b \<Longrightarrow> parse_deadline data = Inr (bo_deadline b)"
  by (auto simp: Bounty_from_dict_def bind_eq_Inr)




section \<open>Verified properties: sorting by deadline\<close>

lemma deadline_sample [simp]: "deadline (sample_bounty i dl) = dl"
  by (simp add: sample_bounty_def)

text \<open>
  C2 on the code. Of a bounty due on 2026-02-14 and a bounty with no deadline, the
  ascending sort returns the one with no deadline first, where the specification (and the
  comment in \<open>sort_by_deadline\<close>) puts it last; the descending sort returns it first;
  and a string deadline sorts before the datetime, as the earliest instant would.
\<close>

theorem sort_by_deadline_none_first:
  "sort_by_deadline
     [sample_bounty ''143'' (Some (DeadlineAt (Datetime 1771045906751000 None))),
      sample_bounty ''144'' None] False
   = Inr [sample_bounty ''144'' None,
          sample_bounty ''143'' (Some (DeadlineAt (Datetime 1771045906751000 None)))]
   \<and> sort_by_deadline
     [sample_bounty ''143'' (Some (DeadlineAt (Datetime 1771045906751000 None))),
      sample_bounty ''144'' None] True
   = Inr [sample_bounty ''144'' None,
          sample_bounty ''143'' (Some (DeadlineAt (Datetime 1771045906751000 None)))]
   \<and> sort_by_deadline
     [sample_bounty ''143'' (Some (DeadlineAt (Datetime 1771045906751000 None))),
      sample_bounty ''145'' (Some (DeadlineStr ''2026-02-20''))] False
   = Inr [sample_bounty ''145'' (Some (DeadlineStr ''2026-02-20'')),
          sample_bounty ''143'' (Some (DeadlineAt (Datetime 1771045906751000 None)))]"
  by (simp add: sort_by_deadline_def sorted_by_datetime_def deadline_key_def
      datetime_min_def datetime_max_def)

section \<open>Verified properties: decimal conversions\<close>

declare ndigits.simps [simp del]
declare strip_zeros.simps [simp del]

lemma ndigits_pos: "0 < ndigits n"
  by (subst ndigits.simps) simp

lemma less_pow_ndigits: "n < 10 ^ ndigits n"
proof (induction n rule: ndigits.induct)
  case (1 n)
  show ?case
  proof (cases "n < 10")
    case True
    then show ?thesis by (subst ndigits.simps) simp
  next
    case False
    with 1 have "n div 10 < 10 ^ ndigits (n div 10)" by simp
    then have "n < 10 * 10 ^ ndigits (n div 10)" by (simp add: div_less_iff_less_mult mult.commute)
    with False show ?thesis by (subst ndigits.simps) simp
  qed
qed

lemma ndigits_le: "n < 10 ^ k \<Longrightarrow> 0 < k \<Longrightarrow> ndigits n \<le> k"
proof (induction n arbitrary: k rule: ndigits.induct)
  case (1 n)
  show ?case
  proof (cases "n < 10")
    case True
    with 1(3) show ?thesis by (subst ndigits.simps) simp
  next
    case False
    with 1(2) have k2: "1 < k"
      by (metis One_nat_def Suc_lessI \<open>0 < k\<close> power_one_right)
    then obtain j where j: "k = Suc j" "0 < j" by (cases k) auto
    from 1(2) j have "n div 10 < 10 ^ j"
      by (simp add: div_less_iff_less_mult mult.commute)
    with 1(1) False j have "ndigits (n div 10) \<le> j" by simp
    with False j show ?thesis by (subst ndigits.simps) simp
  qed
qed

lemma strip_zeros_spec:
  "strip_zeros c e i = (c', e') \<Longrightarrow> e \<le> i \<Longrightarrow>
     \<exists>t. e' = e + int t \<and> c = c' * 10 ^ t \<and> e' \<le> i \<and> (e' < i \<longrightarrow> c' mod 10 \<noteq> 0)"
proof (induction c e i rule: strip_zeros.induct)
  case (1 coeff e ideal)
  show ?case
  proof (cases "e < ideal \<and> coeff mod 10 = 0")
    case True
    with 1(2) have s: "strip_zeros (coeff div 10) (e + 1) ideal = (c', e')"
      by (subst (asm) strip_zeros.simps) simp
    from True have "e + 1 \<le> ideal" by simp
    from 1(1) [OF True s this] obtain t where
      t: "e' = e + 1 + int t" "coeff div 10 = c' * 10 ^ t" "e' \<le> ideal" "e' < ideal \<longrightarrow> c' mod 10 \<noteq> 0"
      by blast
    from True have "coeff = (coeff div 10) * 10" by presburger
    with t(2) have "coeff = c' * 10 ^ Suc t" by simp
    with t show ?thesis by (intro exI [of _ "Suc t"]) simp
  next
    case False
    with 1(2) have "c' = coeff" "e' = e"
      by (subst (asm) strip_zeros.simps; simp)+
    with False 1(3) show ?thesis by (intro exI [of _ 0]) auto
  qed
qed


lemma ndigits_million: "ndigits 1000000 = 7"
  by (simp add: ndigits.simps)

lemma dec_fix_id:
  assumes "0 < c" and "c < 10 ^ 28" and "- 6 \<le> e" and "e \<le> 0"
  shows "dec_fix s c e = Inr (DFin s c e)"
proof -
  have "ndigits c \<le> 28" using assms(2) by (simp add: ndigits_le)
  then have "int (ndigits c) + e - 28 \<le> e" by simp
  with assms show ?thesis
    by (simp add: dec_fix_def Let_def prec_def Etop_def Etiny_def Emax_def Emin_def)
qed

lemma truediv_micro:
  assumes "0 < a" and "a < 10 ^ 28"
  shows "\<exists>c u. u \<le> 6 \<and> a = c * 10 ^ u \<and> 0 < c
           \<and> truediv (DFin s a 0) (DFin False 1000000 0) = Inr (DFin s c (int u - 6))"
proof -
  define L where "L = ndigits a"
  have L: "0 < L" "L \<le> 28"
    using assms(2) by (simp_all add: L_def ndigits_pos ndigits_le)
  define sh where "sh = 36 - L"
  have sh: "8 \<le> sh" "int sh = 36 - int L" using L by (simp_all add: sh_def)
  have shift: "int (ndigits 1000000) - int (ndigits a) + int prec + 1 = int sh"
    using sh by (simp add: ndigits_million L_def prec_def)
  have p: "(10::nat) ^ sh = 10 ^ (sh - 6) * 1000000"
  proof -
    have "sh = (sh - 6) + 6" using sh by simp
    then have "(10::nat) ^ sh = 10 ^ (sh - 6) * 10 ^ 6" by (metis power_add)
    then show ?thesis by simp
  qed
  have q: "a * 10 ^ sh div 1000000 = a * 10 ^ (sh - 6)" and r: "a * 10 ^ sh mod 1000000 = 0"
    by (simp_all add: p mult.assoc [symmetric])
  obtain c' e' where sz: "strip_zeros (a * 10 ^ (sh - 6)) (- int sh) 0 = (c', e')"
    by (cases "strip_zeros (a * 10 ^ (sh - 6)) (- int sh) 0") blast
  have td: "truediv (DFin s a 0) (DFin False 1000000 0) = dec_fix s c' e'"
    using assms(1) by (simp add: shift q r sz Let_def del: of_nat_numeral)
  from strip_zeros_spec [OF sz] obtain t where
    t: "e' = - int sh + int t" "a * 10 ^ (sh - 6) = c' * 10 ^ t" "e' \<le> 0" "e' < 0 \<longrightarrow> c' mod 10 \<noteq> 0"
    by auto
  have tge: "sh - 6 \<le> t"
  proof (rule ccontr)
    assume "\<not> sh - 6 \<le> t"
    then have "t < sh - 6" by simp
    then obtain j where "sh - 6 = Suc (t + j)" using less_imp_Suc_add by blast
    then have j: "sh - 6 = t + Suc j" by simp
    with t(2) have "a * 10 ^ Suc j * 10 ^ t = c' * 10 ^ t" by (simp add: power_add mult_ac)
    then have "c' = a * 10 ^ Suc j" by simp
    then have "c' mod 10 = 0" by simp
    moreover from j t(1) sh have "e' < 0" by simp
    ultimately show False using t(4) by simp
  qed
  define u where "u = t - (sh - 6)"
  have tu: "t = u + (sh - 6)" using tge by (simp add: u_def)
  with t(2) have "a * 10 ^ (sh - 6) = c' * 10 ^ u * 10 ^ (sh - 6)" by (simp add: power_add mult_ac)
  then have a: "a = c' * 10 ^ u" by simp
  have e: "e' = int u - 6" using t(1) tu sh by simp
  with t(3) have u6: "u \<le> 6" by simp
  from a assms(1) have cpos: "0 < c'" by (cases c') simp_all
  have "c' \<le> c' * 10 ^ u" by simp
  then have "c' \<le> a" by (simp only: a)
  then have c28: "c' < 10 ^ 28" using assms(2) by (rule le_less_trans)
  have "dec_fix s c' e' = Inr (DFin s c' e')"
    using cpos c28 e u6 by (intro dec_fix_id) simp_all
  with td e a u6 cpos show ?thesis by auto
qed


lemma pow10_micro:
  assumes "u \<le> 6"
  shows "of_nat c * pow10 (int u - 6) = (of_nat (c * 10 ^ u) :: rat) / 1000000"
proof (cases "u = 6")
  case True
  then show ?thesis by (simp add: pow10_def)
next
  case False
  with assms have lt: "u < 6" by simp
  define w where "w = 6 - u"
  have w: "nat (6 - int u) = w" "u + w = 6" using lt by (simp_all add: w_def)
  have "(1000000::rat) = 10 ^ (u + w)" by (simp add: w(2))
  then have m: "(1000000::rat) = 10 ^ u * 10 ^ w" by (simp only: power_add)
  from lt have "\<not> 0 \<le> int u - 6" by simp
  then have "of_nat c * pow10 (int u - 6) = (of_nat c :: rat) / 10 ^ w"
    by (simp add: pow10_def w(1))
  also have "\<dots> = (of_nat c * 10 ^ u) / (10 ^ u * 10 ^ w)" by simp
  also have "\<dots> = (of_nat (c * 10 ^ u) :: rat) / 1000000" by (simp only: m of_nat_mult of_nat_power of_nat_numeral)
  finally show ?thesis .
qed

lemma micro_to_usdc_exact:
  assumes "\<bar>m\<bar> < 10 ^ 28"
  shows "\<exists>c u. u \<le> 6 \<and> nat \<bar>m\<bar> = c * 10 ^ u
           \<and> micro_to_usdc m = Inr (DFin (m < 0) c (int u - 6))"
proof (cases "m = 0")
  case True
  have "micro_to_usdc 0 = Inr (DFin False 0 0)"
    by (simp add: micro_to_usdc_def Decimal_of_int_def dec_fix_def Etiny_def Emin_def Emax_def prec_def)
  with True show ?thesis by (intro exI [of _ 0] exI [of _ 6]) simp
next
  case False
  then have pos: "0 < nat \<bar>m\<bar>" by simp
  have "nat \<bar>m\<bar> < nat (10 ^ 28)" using assms by (simp only: nat_less_eq_zless abs_ge_zero)
  then have lt: "nat \<bar>m\<bar> < 10 ^ 28" by simp
  from truediv_micro [OF pos lt, of "m < 0"] show ?thesis
    by (simp add: micro_to_usdc_def Decimal_of_int_def del: truediv.simps) blast
qed

lemma micro_to_usdc_value:
  assumes "\<bar>m\<bar> < 10 ^ 28"
  shows "\<exists>d. micro_to_usdc m = Inr d \<and> dec_val d = Some (of_int m / 1000000)"
proof -
  from micro_to_usdc_exact [OF assms] obtain c u where
    u: "u \<le> 6" and a: "nat \<bar>m\<bar> = c * 10 ^ u"
    and d: "micro_to_usdc m = Inr (DFin (m < 0) c (int u - 6))" by blast
  have v: "of_nat c * pow10 (int u - 6) = (of_nat (nat \<bar>m\<bar>) :: rat) / 1000000"
    using pow10_micro [OF u, of c] by (simp only: a)
  have n: "(of_nat (nat \<bar>m\<bar>) :: rat) = of_int \<bar>m\<bar>" by simp
  have "dec_val (DFin (m < 0) c (int u - 6)) = Some (of_int m / 1000000)"
  proof (cases "m < 0")
    case True
    then have "(of_int \<bar>m\<bar> :: rat) = - of_int m" by simp
    with True v n show ?thesis by (simp add: mult.assoc)
  next
    case False
    then have "(of_int \<bar>m\<bar> :: rat) = of_int m" by simp
    with False v n show ?thesis by (simp add: mult.assoc)
  qed
  with d show ?thesis by blast
qed


lemma micro_to_usdc_big:
  "micro_to_usdc 10000000000000000000000000001 = Inr (DFin False 1000000000000000000000000000 (- 5))"
  by (simp add: micro_to_usdc_def Decimal_of_int_def ndigits.simps strip_zeros.simps dec_fix_def
      round_half_even_drop_def prec_def Etop_def Etiny_def Emax_def Emin_def Let_def)

text \<open>
  C5 as stated fails beyond 28 digits: for a reward of \<open>10^28 + 1\<close> micro-units the
  accessor returns \<open>10^22\<close>, which is not \<open>(10^28 + 1) / 10^6\<close>.
\<close>

theorem usdc_accessor_counterexample:
  "reward_usdc (sample_bounty ''143'' None \<lparr>reward := 10000000000000000000000000001\<rparr>)
     = Inr (DFin False 1000000000000000000000000000 (- 5))
   \<and> dec_val (DFin False 1000000000000000000000000000 (- 5))
     \<noteq> Some (10000000000000000000000000001 / 1000000)"
  using micro_to_usdc_big
  by (simp add: reward_usdc_def micro_to_usdc_def pow10_def del: truediv.simps)

text \<open>
  C5, as the code has it. For a \<open>Bounty\<close>, \<open>Payment\<close> or \<open>PendingPayment\<close> whose integer
  field \<open>r\<close> has \<open>|r| < 10^28\<close>, the \<open>*_usdc\<close> accessor returns a decimal whose value is
  exactly \<open>r / 1000000\<close>.
\<close>

theorem usdc_accessors_exact:
  "(\<bar>reward b\<bar> < 10 ^ 28 \<longrightarrow>
      (\<exists>d. reward_usdc b = Inr d \<and> dec_val d = Some (of_int (reward b) / 1000000)))
   \<and> (\<bar>fee p\<bar> < 10 ^ 28 \<longrightarrow>
      (\<exists>d. fee_usdc p = Inr d \<and> dec_val d = Some (of_int (fee p) / 1000000)))
   \<and> (\<bar>net_reward p\<bar> < 10 ^ 28 \<longrightarrow>
      (\<exists>d. net_reward_usdc p = Inr d \<and> dec_val d = Some (of_int (net_reward p) / 1000000)))
   \<and> (\<bar>gross_reward p\<bar> < 10 ^ 28 \<longrightarrow>
      (\<exists>d. gross_reward_usdc p = Inr d \<and> dec_val d = Some (of_int (gross_reward p) / 1000000)))
   \<and> (\<bar>pending_fee q\<bar> < 10 ^ 28 \<longrightarrow>
      (\<exists>d. pending_fee_usdc q = Inr d \<and> dec_val d = Some (of_int (pending_fee q) / 1000000)))
   \<and> (\<bar>pending_net_reward q\<bar> < 10 ^ 28 \<longrightarrow>
      (\<exists>d. pending_net_reward_usdc q = Inr d
           \<and> dec_val d = Some (of_int (pending_net_reward q) / 1000000)))
   \<and> (\<bar>pending_gross_reward q\<bar> < 10 ^ 28 \<longrightarrow>
      (\<exists>d. pending_gross_reward_usdc q = Inr d
           \<and> dec_val d = Some (of_int (pending_gross_reward q) / 1000000)))"
  using micro_to_usdc_value
  unfolding reward_usdc_def fee_usdc_def net_reward_usdc_def gross_reward_usdc_def
    pending_fee_usdc_def pending_net_reward_usdc_def pending_gross_reward_usdc_def
    micro_to_usdc_def
  by (intro conjI impI) blast+


theorem usdc_accessors_exact_witness:
  "(\<exists>d. reward_usdc (sample_bounty ''143'' None) = Inr d \<and> dec_val d = Some 20)
   \<and> (\<exists>d. fee_usdc sample_payment = Inr d \<and> dec_val d = Some (2865 / 100))
   \<and> (\<exists>d. net_reward_usdc sample_payment = Inr d \<and> dec_val d = Some (54435 / 100))
   \<and> (\<exists>d. gross_reward_usdc sample_payment = Inr d \<and> dec_val d = Some 573)
   \<and> (\<exists>d. pending_fee_usdc sample_pending_payment = Inr d \<and> dec_val d = Some (3 / 2))
   \<and> (\<exists>d. pending_net_reward_usdc sample_pending_payment = Inr d \<and> dec_val d = Some (57 / 2))
   \<and> (\<exists>d. pending_gross_reward_usdc sample_pending_payment = Inr d \<and> dec_val d = Some 30)"
  using usdc_accessors_exact [of "sample_bounty ''143'' None" sample_payment sample_pending_payment]
  by (simp add: sample_bounty_def sample_payment_def sample_pending_payment_def)

lemma pow_le_ndigits: "10 ^ k \<le> n \<Longrightarrow> k < ndigits n"
proof -
  assume "10 ^ k \<le> n"
  then have "(10::nat) ^ k < 10 ^ ndigits n" using less_pow_ndigits [of n] by (rule le_less_trans)
  then show ?thesis by simp
qed

lemma dec_fix_scaled:
  assumes "0 < c" and "c < 10 ^ 28" and "- 6 \<le> e" and "e \<le> 0"
  shows "\<exists>j C. j \<le> 6 \<and> C * 10 ^ j = c * 1000000
           \<and> dec_fix s (c * 1000000) e = Inr (DFin s C (e + int j))"
proof -
  define n where "n = ndigits (c * 1000000)"
  have "10 ^ 6 \<le> c * 1000000" using assms(1) by simp
  then have n7: "6 < n" unfolding n_def by (rule pow_le_ndigits)
  have "c * 1000000 < 10 ^ 28 * 1000000" using assms(2) by simp
  then have "c * 1000000 < 10 ^ 34" by simp
  then have n34: "n \<le> 34" unfolding n_def by (simp add: ndigits_le)
  have cn: "c * 1000000 < 10 ^ n" unfolding n_def by (rule less_pow_ndigits)
  show ?thesis
  proof (cases "n \<le> 28")
    case True
    with assms n7 have "dec_fix s (c * 1000000) e = Inr (DFin s (c * 1000000) e)"
      by (simp add: dec_fix_def Let_def prec_def Etop_def Etiny_def Emax_def Emin_def n_def [symmetric])
    then show ?thesis by (intro exI [of _ 0] exI [of _ "c * 1000000"]) simp
  next
    case False
    define k where "k = n - 28"
    have k: "0 < k" "k \<le> 6" "n = 28 + k" using False n34 by (simp_all add: k_def)
    define w where "w = 6 - k"
    have "(1000000::nat) = 10 ^ (w + k)" using k by (simp add: w_def)
    then have m: "(1000000::nat) = 10 ^ w * 10 ^ k" by (simp only: power_add)
    have dv: "c * 1000000 div 10 ^ k = c * 10 ^ w" and md: "c * 1000000 mod 10 ^ k = 0"
      by (simp_all add: m mult.assoc [symmetric])
    have rd: "round_half_even_drop (c * 1000000) k = c * 10 ^ w"
      by (simp add: round_half_even_drop_def Let_def dv md)
    have "c * 10 ^ w * 10 ^ k < 10 ^ 28 * 10 ^ k"
      using cn by (simp add: k(3) power_add m mult.assoc)
    then have "c * 10 ^ w < 10 ^ 28" by simp
    then have nd: "ndigits (c * 10 ^ w) \<le> 28" by (simp add: ndigits_le)
    have ek: "nat (int n + e - 28 - e) = k" using k by simp
    from assms k n7 nd have "dec_fix s (c * 1000000) e = Inr (DFin s (c * 10 ^ w) (e + int k))"
      by (simp add: dec_fix_def Let_def prec_def Etop_def Etiny_def Emax_def Emin_def
          n_def [symmetric] rd)
    moreover have "c * 10 ^ w * 10 ^ k = c * 1000000" by (simp add: m mult.assoc)
    ultimately show ?thesis using k(2) by blast
  qed
qed


lemma int_of_scaled:
  assumes "u \<le> 6" and "C * 10 ^ j = c * 1000000"
  shows "int_of_decimal (DFin s C (int u - 6 + int j))
           = Inr (if s then - int (c * 10 ^ u) else int (c * 10 ^ u))"
proof (cases "6 \<le> u + j")
  case True
  define v where "v = u + j - 6"
  have v: "nat (int u - 6 + int j) = v" "u + j = v + 6" using True by (simp_all add: v_def)
  have "C * 10 ^ v * 10 ^ 6 = C * 10 ^ (v + 6)" by (simp only: power_add mult.assoc)
  also have "\<dots> = C * 10 ^ j * 10 ^ u" by (simp only: v(2) [symmetric]) (simp add: power_add)
  also have "\<dots> = c * 10 ^ u * 10 ^ 6" by (simp only: assms(2)) simp
  finally have "C * 10 ^ v = c * 10 ^ u" by simp
  moreover from True have "0 \<le> int u - 6 + int j" by simp
  ultimately show ?thesis by (simp add: Let_def v(1))
next
  case False
  define w where "w = 6 - (u + j)"
  have w: "nat (6 - int u - int j) = w" "6 = u + w + j" "0 < w" using False by (simp_all add: w_def)
  have "(1000000::nat) = 10 ^ 6" by simp
  also have "\<dots> = 10 ^ (u + w + j)" by (simp only: w(2) [symmetric])
  finally have "(1000000::nat) = 10 ^ u * 10 ^ w * 10 ^ j" by (simp only: power_add)
  with assms(2) have "C * 10 ^ j = c * 10 ^ u * 10 ^ w * 10 ^ j" by (simp only: mult.assoc)
  then have "C = c * 10 ^ u * 10 ^ w" by simp
  then have "C div 10 ^ w = c * 10 ^ u" by simp
  moreover from False have "\<not> 0 \<le> int u - 6 + int j" by simp
  moreover have "nat (- (int u - 6 + int j)) = w" using w(1) by simp
  ultimately show ?thesis by (simp only: int_of_decimal.simps Let_def if_False)
qed

lemma micro_roundtrip:
  assumes "\<bar>m\<bar> < 10 ^ 28"
  shows "bind (micro_to_usdc m) usdc_to_micro = Inr m"
proof -
  from micro_to_usdc_exact [OF assms] obtain c u where
    u: "u \<le> 6" and a: "nat \<bar>m\<bar> = c * 10 ^ u"
    and d: "micro_to_usdc m = Inr (DFin (m < 0) c (int u - 6))" by blast
  have mm: "(if m < 0 then - int (c * 10 ^ u) else int (c * 10 ^ u)) = m"
    by (simp only: a [symmetric]) simp
  have "usdc_to_micro (DFin (m < 0) c (int u - 6)) = Inr m"
  proof (cases "c = 0")
    case True
    with a have "m = 0" by simp
    with True u show ?thesis
      by (simp add: usdc_to_micro_def Decimal_of_int_def dec_fix_def Etiny_def Emin_def Emax_def
          prec_def Let_def)
  next
    case False
    then have cpos: "0 < c" by simp
    have "c \<le> c * 10 ^ u" by simp
    then have "c \<le> nat \<bar>m\<bar>" by (simp only: a)
    moreover have "nat \<bar>m\<bar> < 10 ^ 28"
    proof -
      have "nat \<bar>m\<bar> < nat (10 ^ 28)" using assms by (simp only: nat_less_eq_zless abs_ge_zero)
      then show ?thesis by simp
    qed
    ultimately have c28: "c < 10 ^ 28" by (rule le_less_trans)
    have e: "- 6 \<le> int u - 6" "int u - 6 \<le> 0" using u by simp_all
    from dec_fix_scaled [OF cpos c28 e, of "m < 0"] obtain j C where
      j: "j \<le> 6" "C * 10 ^ j = c * 1000000"
      and f: "dec_fix (m < 0) (c * 1000000) (int u - 6) = Inr (DFin (m < 0) C (int u - 6 + int j))"
      by blast
    have "mul (DFin (m < 0) c (int u - 6)) (Decimal_of_int 1000000)
            = Inr (DFin (m < 0) C (int u - 6 + int j))"
      using f by (simp add: Decimal_of_int_def)
    then show ?thesis
      by (simp add: usdc_to_micro_def int_of_scaled [OF u j(2)] mm del: int_of_decimal.simps mul.simps)
  qed
  with d show ?thesis by simp
qed

text \<open>
  C10 as stated fails beyond 28 digits: \<open>10^28 + 1\<close> comes back as \<open>10^28\<close>.
\<close>

theorem micro_roundtrip_counterexample:
  "bind (micro_to_usdc 10000000000000000000000000001) usdc_to_micro
     = Inr 10000000000000000000000000000"
  by (simp add: micro_to_usdc_big usdc_to_micro_def Decimal_of_int_def ndigits.simps dec_fix_def
      round_half_even_drop_def prec_def Etop_def Etiny_def Emax_def Emin_def Let_def)

text \<open>
  C10, as the code has it. For every integer \<open>m\<close> with \<open>|m| < 10^28\<close>,
  \<open>usdc_to_micro (micro_to_usdc m)\<close> returns \<open>m\<close>.
\<close>

theorem micro_roundtrip_bounded:
  "\<bar>m\<bar> < 10 ^ 28 \<Longrightarrow> bind (micro_to_usdc m) usdc_to_micro = Inr m"
  by (rule micro_roundtrip)

theorem micro_roundtrip_bounded_witness:
  "\<bar>10500000 :: int\<bar> < 10 ^ 28 \<and> bind (micro_to_usdc 10500000) usdc_to_micro = Inr 10500000
   \<and> bind (micro_to_usdc (- 9999999999999999999999999999)) usdc_to_micro
       = Inr (- 9999999999999999999999999999)"
  using micro_roundtrip_bounded [of 10500000]
    micro_roundtrip_bounded [of "- 9999999999999999999999999999"]
  by simp

end
